theory Spec2Isabelle
  imports Complex_Main "HOL-Library.List_Lexorder" "HOL-Library.Char_ord"
begin

section \<open>Python values shared by the supplier clients and the synchronisation service\<close>

text \<open>
  The exceptions the modelled code raises or catches.  A function that can raise returns
  \<open>pyerror + 'a\<close>, with \<open>Inl\<close> for the exception.
\<close>

datatype pyerror =
    AttributeError | KeyError | TypeError | ValueError | StopIteration
  | FileNotFoundError | ParseError | DataParsingError | APIError
  | DoesNotExist | MultipleObjectsReturned | IntegrityError | ConnectionError

text \<open>
  Python's \<open>float\<close> is modelled by \<open>rat\<close>; no claim below depends on rounding.  The
  conversion \<open>float(s)\<close> of a string is a parameter \<open>fparse\<close> of the functions
  that call it (\<open>None\<close> stands for \<open>ValueError\<close>); \<open>int(x)\<close> truncates towards zero.
\<close>

definition py_trunc :: "rat \<Rightarrow> int" where
  "py_trunc x = (if 0 \<le> x then \<lfloor>x\<rfloor> else \<lceil>x\<rceil>)"

definition is_space :: "char \<Rightarrow> bool" where
  "is_space c = (c \<in> set [CHR '' '', CHR 0x09, CHR 0x0A, CHR 0x0B, CHR 0x0C, CHR 0x0D,
                           CHR 0x1C, CHR 0x1D, CHR 0x1E, CHR 0x1F])"

definition py_strip :: "string \<Rightarrow> string" where
  "py_strip s = rev (dropWhile is_space (rev (dropWhile is_space s)))"

text \<open>\<open>s.replace(old, new)\<close>: non-overlapping occurrences, left to right.\<close>

function py_replace :: "string \<Rightarrow> string \<Rightarrow> string \<Rightarrow> string" where
  "py_replace old new [] = []"
| "py_replace old new (c # cs) =
     (if old \<noteq> [] \<and> take (length old) (c # cs) = old
      then new @ py_replace old new (drop (length old) (c # cs))
      else c # py_replace old new cs)"
  by pat_completeness auto
termination
  by (relation "measure (\<lambda>(old, new, s). length s)") (auto simp: neq_Nil_conv)

text \<open>\<open>str(n)\<close> for a non-negative integer.\<close>

definition digit_char :: "nat \<Rightarrow> char" where
  "digit_char d = char_of (48 + d)"

function str_nat :: "nat \<Rightarrow> string" where
  "str_nat n = (if n < 10 then [digit_char n] else str_nat (n div 10) @ [digit_char (n mod 10)])"
  by pat_completeness auto
termination
  by (relation "measure id") auto

declare str_nat.simps [simp del]

text \<open>
  A dict keeps insertion order: an association list in which \<open>d[k] = v\<close> replaces the
  value of a present key in place and appends an absent one.
\<close>

fun dict_set :: "('k \<times> 'v) list \<Rightarrow> 'k \<Rightarrow> 'v \<Rightarrow> ('k \<times> 'v) list" where
  "dict_set [] k v = [(k, v)]"
| "dict_set ((k', v') # kvs) k v =
     (if k' = k then (k, v) # kvs else (k', v') # dict_set kvs k v)"

section \<open>Grouped-CSV client: \<open>suppliers/clients/bic_parser.py\<close>\<close>

text \<open>
  A row of \<open>csv.DictReader\<close>: column name to value.  A short line leaves the trailing
  columns at Python's \<open>None\<close>, which is the inner \<open>None\<close> here.
\<close>

type_synonym row = "(string \<times> string option) list"

text \<open>\<open>data.get(key, default)\<close>: the stored value (possibly \<open>None\<close>) or the default.\<close>

definition row_get :: "row \<Rightarrow> string \<Rightarrow> string \<Rightarrow> string option" where
  "row_get data key dflt = (case map_of data key of None \<Rightarrow> Some dflt | Some v \<Rightarrow> v)"

text \<open>A string method called on the value: \<open>None.strip()\<close> raises \<open>AttributeError\<close>.\<close>

definition as_str :: "string option \<Rightarrow> pyerror + string" where
  "as_str v = (case v of None \<Rightarrow> Inl AttributeError | Some s \<Rightarrow> Inr s)"

definition get_strip :: "row \<Rightarrow> string \<Rightarrow> string \<Rightarrow> pyerror + string" where
  "get_strip data key dflt = map_sum id py_strip (as_str (row_get data key dflt))"

definition get_replace :: "row \<Rightarrow> string \<Rightarrow> string \<Rightarrow> pyerror + string" where
  "get_replace data key old = map_sum id (py_replace old []) (as_str (row_get data key []))"

definition safe_float :: "(string \<Rightarrow> rat option) \<Rightarrow> string option \<Rightarrow> rat option" where
  "safe_float fparse value =
     (case value of
        None \<Rightarrow> None
      | Some s \<Rightarrow>
          if s = [] then None
          else (let cleaned = py_replace '','' ''.'' (py_strip s)
                in if cleaned = [] then None else fparse cleaned))"

definition safe_int :: "(string \<Rightarrow> rat option) \<Rightarrow> string option \<Rightarrow> int option" where
  "safe_int fparse value =
     (case value of
        None \<Rightarrow> None
      | Some s \<Rightarrow>
          if s = [] then None
          else (let cleaned = py_strip s
                in if cleaned = [] then None else map_option py_trunc (fparse cleaned)))"

record tier =
  min_quantity :: int
  max_quantity :: "int option"
  price :: rat
  currency :: string

definition price_at :: "(string \<Rightarrow> rat option) \<Rightarrow> row \<Rightarrow> string \<Rightarrow> nat \<Rightarrow> tier list" where
  "price_at fparse data cur i =
     (let min_qty = safe_int fparse (row_get data (''minQty.'' @ str_nat i) []);
          max_qty = safe_int fparse (row_get data (''maxQty.'' @ str_nat i) []);
          pr = safe_float fparse (row_get data (''price.'' @ str_nat i) [])
      in case (pr, min_qty) of
           (Some p, Some mn) \<Rightarrow>
             if p \<noteq> 0 \<and> mn \<noteq> 0
             then [\<lparr>min_quantity = mn,
                    max_quantity = (case max_qty of
                                      None \<Rightarrow> Some 999999
                                    | Some mx \<Rightarrow> if mx \<noteq> 0 then Some mx else Some 999999),
                    price = p, currency = cur\<rparr>]
             else []
         | _ \<Rightarrow> [])"

definition extract_prices :: "(string \<Rightarrow> rat option) \<Rightarrow> row \<Rightarrow> pyerror + tier list" where
  "extract_prices fparse data =
     (case get_strip data ''price.currency'' ''EUR'' of
        Inl e \<Rightarrow> Inl e
      | Inr cur \<Rightarrow> Inr (concat (map (price_at fparse data cur) [1..<11])))"

text \<open>
  \<open>_extract_images\<close>, \<open>_extract_categories\<close>, \<open>_extract_dimensions\<close>,
  \<open>_extract_packaging\<close>, \<open>_create_main_variant\<close>.
\<close>

definition extract_images :: "row \<Rightarrow> pyerror + string list" where
  "extract_images data =
     (case get_strip data ''listImage'' [] of
        Inl e \<Rightarrow> Inl e
      | Inr list_image \<Rightarrow>
          (case get_strip data ''imprintTemplate'' [] of
             Inl e \<Rightarrow> Inl e
           | Inr imprint_template \<Rightarrow>
               Inr ((if list_image \<noteq> [] then [list_image] else []) @
                    (if imprint_template \<noteq> [] \<and> imprint_template \<noteq> list_image
                     then [imprint_template] else []))))"

definition extract_categories :: "row \<Rightarrow> pyerror + string list" where
  "extract_categories data =
     (case get_strip data ''brand'' [] of
        Inl e \<Rightarrow> Inl e
      | Inr brand \<Rightarrow> Inr ((if brand \<noteq> [] then [brand] else []) @ [''Prodotti Promozionali'']))"

text \<open>One measure: the column with its unit suffix removed, kept when it is a non-zero number.\<close>

definition measure_of :: "(string \<Rightarrow> rat option) \<Rightarrow> row \<Rightarrow> string \<Rightarrow> string \<Rightarrow> string
    \<Rightarrow> pyerror + (string \<times> rat) list" where
  "measure_of fparse data column unit name =
     (case get_replace data column unit of
        Inl e \<Rightarrow> Inl e
      | Inr s \<Rightarrow> Inr (case safe_float fparse (Some s) of
                       None \<Rightarrow> []
                     | Some x \<Rightarrow> if x \<noteq> 0 then [(name, x)] else []))"

fun collect :: "(pyerror + 'a list) list \<Rightarrow> pyerror + 'a list" where
  "collect [] = Inr []"
| "collect (Inl e # rs) = Inl e"
| "collect (Inr xs # rs) = (case collect rs of Inl e \<Rightarrow> Inl e | Inr ys \<Rightarrow> Inr (xs @ ys))"

definition extract_dimensions :: "(string \<Rightarrow> rat option) \<Rightarrow> row \<Rightarrow> pyerror + (string \<times> rat) list" where
  "extract_dimensions fparse data =
     collect [measure_of fparse data ''width'' '' cm'' ''width'',
              measure_of fparse data ''height'' '' cm'' ''height'',
              measure_of fparse data ''depth'' '' cm'' ''depth'',
              measure_of fparse data ''diameter'' '' cm'' ''diameter'']"

record packaging =
  pkg_measures :: "(string \<times> rat) list"
  pkg_capacity :: "string option"

definition extract_packaging :: "(string \<Rightarrow> rat option) \<Rightarrow> row \<Rightarrow> pyerror + packaging" where
  "extract_packaging fparse data =
     (case collect [measure_of fparse data ''packaging.width'' '' cm'' ''width'',
                    measure_of fparse data ''packaging.height'' '' cm'' ''height'',
                    measure_of fparse data ''packaging.depth'' '' cm'' ''depth'',
                    measure_of fparse data ''packaging.weight'' '' g'' ''weight''] of
        Inl e \<Rightarrow> Inl e
      | Inr ms \<Rightarrow>
          (case get_strip data ''packaging.capacity'' [] of
             Inl e \<Rightarrow> Inl e
           | Inr cap \<Rightarrow>
               Inr \<lparr>pkg_measures = ms,
                    pkg_capacity = (if cap \<noteq> [] then Some cap else None)\<rparr>))"

text \<open>
  The variant dict handed to the synchronisation service.  A key the dict does not have
  is \<open>None\<close>, so that \<open>variant_data.get(key, default)\<close> can fall back to its default.
\<close>

record variant_data =
  vd_supplier_variant_ref :: "string option"
  vd_sku :: "string option"
  vd_color :: "string option"
  vd_size :: "string option"
  vd_color_code :: "string option"
  vd_gtin :: "string option"
  vd_image :: "string option"

text \<open>
  \<open>data.get('productCode', '')\<close> inside an f-string: \<open>None\<close> is printed as the text
  \<open>None\<close>.
\<close>

definition fmt :: "string option \<Rightarrow> string" where
  "fmt v = (case v of None \<Rightarrow> ''None'' | Some s \<Rightarrow> s)"

definition create_main_variant :: "row \<Rightarrow> pyerror + variant_data" where
  "create_main_variant data =
     (case get_strip data ''listImage'' [] of
        Inl e \<Rightarrow> Inl e
      | Inr img \<Rightarrow>
          Inr \<lparr>vd_supplier_variant_ref = Some (fmt (row_get data ''productCode'' [])),
               vd_sku = Some (''BIC_'' @ fmt (row_get data ''productCode'' [])),
               vd_color = Some [], vd_size = Some [], vd_color_code = None,
               vd_gtin = Some [],
               vd_image = Some img\<rparr>)"

definition ebind :: "pyerror + 'a \<Rightarrow> ('a \<Rightarrow> pyerror + 'b) \<Rightarrow> pyerror + 'b" where
  "ebind m f = (case m of Inl e \<Rightarrow> Inl e | Inr x \<Rightarrow> f x)"

text \<open>The rows of one product code, by locale, in the order the locales first appeared.\<close>

type_synonym languages = "(string \<times> row) list"

record bic_product =
  bp_supplier_ref :: string
  bp_sku :: string
  bp_name :: string
  bp_description :: string
  bp_short_description :: string
  bp_brand :: string
  bp_active :: bool
  bp_images :: "string list"
  bp_categories :: "string list"
  bp_dimensions :: "(string \<times> rat) list"
  bp_weight :: "rat option"
  bp_materials :: string
  bp_country_of_origin :: string
  bp_customs_code :: string
  bp_variants :: "variant_data list"
  bp_prices :: "tier list"
  bp_packaging :: packaging
  bp_multilang_data :: languages
  bp_raw_data :: row

text \<open>
  Lines 79 to 85 of \<open>_standardize_bic_product_data\<close>: the preferred locale, else English,
  else the first locale present; \<open>next(iter(...))\<close> of an empty dict raises.
\<close>

definition main_data_of :: "string \<Rightarrow> languages \<Rightarrow> pyerror + row" where
  "main_data_of preferred_language languages =
     (case map_of languages preferred_language of
        Some r \<Rightarrow> Inr r
      | None \<Rightarrow>
          (case map_of languages ''en'' of
             Some r \<Rightarrow> Inr r
           | None \<Rightarrow> (case languages of [] \<Rightarrow> Inl StopIteration | (l, r) # rest \<Rightarrow> Inr r)))"

definition build_product ::
  "(string \<Rightarrow> rat option) \<Rightarrow> string \<Rightarrow> languages \<Rightarrow> row \<Rightarrow> pyerror + bic_product" where
  "build_product fparse product_code languages main_data =
     ebind (get_strip main_data ''name'' []) (\<lambda>name.
     ebind (get_strip main_data ''description'' []) (\<lambda>description.
     ebind (get_strip main_data ''benefits'' []) (\<lambda>benefits.
     ebind (get_strip main_data ''brand'' ''BIC'') (\<lambda>brand.
     ebind (extract_images main_data) (\<lambda>images.
     ebind (extract_categories main_data) (\<lambda>categories.
     ebind (extract_dimensions fparse main_data) (\<lambda>dimensions.
     ebind (get_replace main_data ''weight'' '' g'') (\<lambda>weight.
     ebind (get_strip main_data ''materials'' []) (\<lambda>materials.
     ebind (get_strip main_data ''countryOfOrigin'' []) (\<lambda>country.
     ebind (get_strip main_data ''customsCode'' []) (\<lambda>customs.
     ebind (create_main_variant main_data) (\<lambda>variant.
     ebind (extract_prices fparse main_data) (\<lambda>prices.
     ebind (extract_packaging fparse main_data) (\<lambda>packaging.
       Inr \<lparr>bp_supplier_ref = product_code,
            bp_sku = ''BIC_'' @ product_code,
            bp_name = name,
            bp_description = description,
            bp_short_description = take 500 benefits,
            bp_brand = brand,
            bp_active = (map_of main_data ''active'' = Some (Some ''1'')),
            bp_images = images,
            bp_categories = categories,
            bp_dimensions = dimensions,
            bp_weight = safe_float fparse (Some weight),
            bp_materials = materials,
            bp_country_of_origin = country,
            bp_customs_code = customs,
            bp_variants = [variant],
            bp_prices = prices,
            bp_packaging = packaging,
            bp_multilang_data = languages,
            bp_raw_data = main_data\<rparr>))))))))))))))"

text \<open>
  \<open>_standardize_bic_product_data\<close>: every exception of the body is caught and the
  product is given up (\<open>None\<close>); an empty row is given up as well.
\<close>

definition standardize_bic_product_data ::
  "(string \<Rightarrow> rat option) \<Rightarrow> string \<Rightarrow> string \<Rightarrow> languages \<Rightarrow> bic_product option" where
  "standardize_bic_product_data fparse preferred_language product_code languages =
     (case main_data_of preferred_language languages of
        Inl e \<Rightarrow> None
      | Inr main_data \<Rightarrow>
          if main_data = [] then None
          else (case build_product fparse product_code languages main_data of
                  Inl e \<Rightarrow> None
                | Inr product_data \<Rightarrow> Some product_data))"

text \<open>\<open>if limit and len(products_by_code) >= limit\<close>.\<close>

definition limit_reached :: "int option \<Rightarrow> nat \<Rightarrow> bool" where
  "limit_reached limit n = (case limit of None \<Rightarrow> False | Some l \<Rightarrow> l \<noteq> 0 \<and> l \<le> int n)"

text \<open>The row loop of \<open>BICParser.get_products\<close>, with \<open>products_by_code\<close> as accumulator.\<close>

fun group_rows ::
  "int option \<Rightarrow> row list \<Rightarrow> (string \<times> languages) list \<Rightarrow> pyerror + (string \<times> languages) list" where
  "group_rows limit [] products_by_code = Inr products_by_code"
| "group_rows limit (r # rs) products_by_code =
     (if map_of r ''active'' \<noteq> Some (Some ''1'') then group_rows limit rs products_by_code
      else
        ebind (get_strip r ''productCode'' []) (\<lambda>product_code.
        ebind (get_strip r ''language'' []) (\<lambda>language.
          if product_code = [] then group_rows limit rs products_by_code
          else
            (let langs = (case map_of products_by_code product_code of
                            None \<Rightarrow> [] | Some ls \<Rightarrow> ls);
                 acc = dict_set products_by_code product_code (dict_set langs language r)
             in if limit_reached limit (length acc) then Inr acc
                else group_rows limit rs acc))))"

text \<open>
  The body of the \<open>try\<close> of \<open>BICParser.get_products\<close>: the rows are grouped, each
  group is standardized, and a group that cannot be is left out.
\<close>

definition bic_preferred_language :: string where
  "bic_preferred_language = ''it''"

definition bic_parse ::
  "(string \<Rightarrow> rat option) \<Rightarrow> row list \<Rightarrow> int option \<Rightarrow> pyerror + bic_product list" where
  "bic_parse fparse rows limit =
     ebind (group_rows limit rows []) (\<lambda>products_by_code.
       Inr (List.map_filter
              (\<lambda>(product_code, languages).
                 standardize_bic_product_data fparse bic_preferred_language product_code languages)
              products_by_code))"

text \<open>
  \<open>BICParser.get_products\<close>.  The file is \<open>None\<close> when \<open>os.path.exists\<close> is false,
  else the rows the reader yields.  A missing file is logged and the empty list returned;
  an exception of the body is logged and the empty list returned.
\<close>

definition bic_get_products ::
  "(string \<Rightarrow> rat option) \<Rightarrow> row list option \<Rightarrow> int option \<Rightarrow> pyerror + bic_product list" where
  "bic_get_products fparse csv_file limit =
     (case csv_file of
        None \<Rightarrow> Inr []
      | Some rows \<Rightarrow>
          (case bic_parse fparse rows limit of
             Inl e \<Rightarrow> Inr []
           | Inr products \<Rightarrow> Inr products))"

section \<open>Streaming-XML client: \<open>suppliers/clients/mkto_parser.py\<close>\<close>

text \<open>
  The nested values the XML and JSON clients hand on: strings, numbers, lists and dicts
  (insertion-ordered, keys unique).
\<close>

datatype pyval =
    PNone | PBool bool | PInt int | PFloat rat | PStr string
  | PList "pyval list" | PDict "(string \<times> pyval) list"

fun py_truthy :: "pyval \<Rightarrow> bool" where
  "py_truthy PNone = False"
| "py_truthy (PBool b) = b"
| "py_truthy (PInt i) = (i \<noteq> 0)"
| "py_truthy (PFloat x) = (x \<noteq> 0)"
| "py_truthy (PStr s) = (s \<noteq> [])"
| "py_truthy (PList xs) = (xs \<noteq> [])"
| "py_truthy (PDict kvs) = (kvs \<noteq> [])"

text \<open>\<open>v.get(key, default)\<close>: only a dict has the method.\<close>

fun py_get :: "pyval \<Rightarrow> string \<Rightarrow> pyval \<Rightarrow> pyerror + pyval" where
  "py_get (PDict kvs) key dflt = Inr (case map_of kvs key of None \<Rightarrow> dflt | Some v \<Rightarrow> v)"
| "py_get v key dflt = Inl AttributeError"

fun is_dict :: "pyval \<Rightarrow> bool" where
  "is_dict (PDict kvs) = True"
| "is_dict v = False"

fun is_list :: "pyval \<Rightarrow> bool" where
  "is_list (PList xs) = True"
| "is_list v = False"

text \<open>A string method (\<open>strip\<close>, \<open>replace\<close>) called on a value.\<close>

fun py_str_method :: "(string \<Rightarrow> string) \<Rightarrow> pyval \<Rightarrow> pyerror + string" where
  "py_str_method f (PStr s) = Inr (f s)"
| "py_str_method f v = Inl AttributeError"

text \<open>
  A value inside an f-string: a string is inserted as it is; the text of any other value
  is Python's \<open>str\<close> of it, the parameter \<open>pystr\<close>.
\<close>

fun py_format :: "(pyval \<Rightarrow> string) \<Rightarrow> pyval \<Rightarrow> string" where
  "py_format pystr (PStr s) = s"
| "py_format pystr v = pystr v"

text \<open>An \<open>ElementTree\<close> element: tag, attributes, text, children.\<close>

datatype element =
  Element (el_tag: string) (el_attrib: "(string \<times> string) list") (el_text: "string option")
    (el_children: "element list")

text \<open>The child loop of \<open>_xml_element_to_dict\<close>: a repeated tag becomes a list.\<close>

definition add_child :: "(string \<times> pyval) list \<Rightarrow> string \<times> pyval \<Rightarrow> (string \<times> pyval) list" where
  "add_child result child =
     (case map_of result (fst child) of
        None \<Rightarrow> dict_set result (fst child) (snd child)
      | Some (PList xs) \<Rightarrow> dict_set result (fst child) (PList (xs @ [snd child]))
      | Some v \<Rightarrow> dict_set result (fst child) (PList [v, snd child]))"

fun xml_element_to_dict :: "element \<Rightarrow> pyval" where
  "xml_element_to_dict (Element tg attrib txt chs) =
     (let stripped = (case txt of None \<Rightarrow> [] | Some t \<Rightarrow> py_strip t)
      in if stripped \<noteq> [] \<and> chs = [] then PStr stripped
         else PDict (foldl add_child
                       (if stripped \<noteq> [] then [(''_text'', PStr stripped)] else [])
                       (map (\<lambda>c. (el_tag c, xml_element_to_dict c)) chs)))"

text \<open>
  What \<open>ET.iterparse(file, events=('start', 'end'))\<close> delivers: start and end events
  carrying the element object, which is complete at its end event, and \<open>Malformed\<close>
  where the parser meets text that is not well-formed and raises \<open>ParseError\<close>.
\<close>

datatype xml_event = Start element | End element | Malformed

text \<open>
  The event loop of \<open>_parse_xml_iterative\<close>.  The generator is consumed lazily, so it
  is modelled by the records it yields up to the point where it stops, and the exception
  it raises there, if any.
\<close>

fun parse_events :: "string \<Rightarrow> element option \<Rightarrow> xml_event list \<Rightarrow> pyval list \<times> pyerror option" where
  "parse_events target_tag current_element [] = ([], None)"
| "parse_events target_tag current_element (Malformed # evs) = ([], Some DataParsingError)"
| "parse_events target_tag current_element (Start elem # evs) =
     (if el_tag elem = target_tag then parse_events target_tag (Some elem) evs
      else parse_events target_tag current_element evs)"
| "parse_events target_tag current_element (End elem # evs) =
     (case current_element of
        Some cur \<Rightarrow>
          if el_tag elem = target_tag
          then (let (ys, err) = parse_events target_tag None evs
                in (xml_element_to_dict cur # ys, err))
          else parse_events target_tag current_element evs
      | None \<Rightarrow> parse_events target_tag current_element evs)"

text \<open>
  \<open>_parse_xml_iterative\<close>: the first event is taken as the root; an empty stream makes
  \<open>next\<close> raise, which the generic handler turns into \<open>APIError\<close>.
\<close>

fun parse_xml_iterative :: "xml_event list \<Rightarrow> string \<Rightarrow> pyval list \<times> pyerror option" where
  "parse_xml_iterative [] target_tag = ([], Some APIError)"
| "parse_xml_iterative (Malformed # evs) target_tag = ([], Some DataParsingError)"
| "parse_xml_iterative (first_event # evs) target_tag = parse_events target_tag None evs"

text \<open>Lookup in a dict known to be one: \<open>d.get(key, default)\<close>.\<close>

definition dget :: "(string \<times> pyval) list \<Rightarrow> string \<Rightarrow> pyval \<Rightarrow> pyval" where
  "dget d key dflt = (case map_of d key of None \<Rightarrow> dflt | Some v \<Rightarrow> v)"

text \<open>\<open>if not isinstance(v, list): v = [v]\<close>.\<close>

fun as_list :: "pyval \<Rightarrow> pyval list" where
  "as_list (PList xs) = xs"
| "as_list v = [v]"

fun py_join :: "string \<Rightarrow> string list \<Rightarrow> string" where
  "py_join sep [] = []"
| "py_join sep [x] = x"
| "py_join sep (x # y # ys) = x @ sep @ py_join sep (y # ys)"

record mkto_variant =
  mv_supplier_variant_ref :: pyval
  mv_sku :: string
  mv_color :: pyval
  mv_size :: pyval
  mv_gtin :: pyval
  mv_image :: pyval

record mkto_product =
  mp_supplier_ref :: pyval
  mp_name :: pyval
  mp_type :: pyval
  mp_description :: pyval
  mp_short_description :: pyval
  mp_composition :: pyval
  mp_brand :: pyval
  mp_main_image :: pyval
  mp_images :: "pyval list"
  mp_categories :: "pyval list"
  mp_variants :: "mkto_variant list"
  mp_is_printable :: bool
  mp_print_code :: pyval
  mp_keywords :: pyval
  mp_raw_data :: pyval

text \<open>The image part of \<open>_standardize_mkto_product\<close>; it raises nothing.\<close>

definition mkto_images :: "(string \<times> pyval) list \<Rightarrow> pyval list" where
  "mkto_images raw_data =
     (let images = (if py_truthy (dget raw_data ''imagemain'' PNone)
                    then [dget raw_data ''imagemain'' PNone] else [])
      in case map_of raw_data ''images'' of
           Some (PDict imgs) \<Rightarrow>
             foldl (\<lambda>acc img.
                      case img of
                        PDict i \<Rightarrow>
                          if py_truthy (dget i ''imagemax'' PNone) \<and> dget i ''imagemax'' PNone \<notin> set acc
                          then acc @ [dget i ''imagemax'' PNone] else acc
                      | _ \<Rightarrow> acc)
                   images (as_list (dget imgs ''image'' (PList [])))
         | _ \<Rightarrow> images)"

text \<open>The category part: \<open>cat_data.get\<close> needs a dict.\<close>

definition mkto_categories :: "(string \<times> pyval) list \<Rightarrow> pyerror + pyval list" where
  "mkto_categories raw_data =
     (case map_of raw_data ''categories'' of
        None \<Rightarrow> Inr []
      | Some (PDict cat_data) \<Rightarrow>
          Inr (filter py_truthy
                 (map (\<lambda>i. dget cat_data (''category_name_'' @ str_nat i) PNone) [1..<6]))
      | Some v \<Rightarrow> Inl AttributeError)"

text \<open>\<open>x.replace('/', '').replace(' ', '')\<close>.\<close>

definition strip_sku_chars :: "string \<Rightarrow> string" where
  "strip_sku_chars x = py_replace '' '' [] (py_replace ''/'' [] x)"

text \<open>The SKU of one variant: the explicit code \<open>refct\<close>, else a synthesized one.\<close>

definition mkto_variant_sku ::
  "(pyval \<Rightarrow> string) \<Rightarrow> pyval \<Rightarrow> pyval \<Rightarrow> pyval \<Rightarrow> pyval \<Rightarrow> pyerror + string" where
  "mkto_variant_sku pystr supplier_ref color size_v refct =
     ebind (if py_truthy refct then py_str_method py_strip refct else Inr []) (\<lambda>stripped.
       if stripped \<noteq> [] then Inr stripped
       else
         ebind (if py_truthy color
                then map_sum id (\<lambda>c. [c]) (py_str_method strip_sku_chars color)
                else Inr []) (\<lambda>color_part.
         ebind (if py_truthy size_v \<and> size_v \<noteq> PStr ''S/T''
                then map_sum id (\<lambda>c. [c]) (py_str_method strip_sku_chars size_v)
                else Inr []) (\<lambda>size_part.
           Inr (py_join ''_'' ([''MAK_'' @ py_format pystr supplier_ref] @ color_part @ size_part)))))"

definition mkto_one_variant ::
  "(pyval \<Rightarrow> string) \<Rightarrow> (string \<times> pyval) list \<Rightarrow> pyval \<Rightarrow> pyerror + mkto_variant list" where
  "mkto_one_variant pystr raw_data variant =
     (case variant of
        PDict v \<Rightarrow>
          (let supplier_ref = dget raw_data ''ref'' (PStr []);
               color = dget v ''colour'' (PStr []);
               size_v = dget v ''size'' (PStr ''ST'');
               refct = dget v ''refct'' (PStr [])
           in ebind (mkto_variant_sku pystr supplier_ref color size_v refct) (\<lambda>variant_sku.
                Inr [\<lparr>mv_supplier_variant_ref =
                        (if py_truthy refct then refct
                         else PStr (py_format pystr supplier_ref @ ''_'' @ py_format pystr color
                                    @ ''_'' @ py_format pystr size_v)),
                      mv_sku = variant_sku,
                      mv_color = color,
                      mv_size = size_v,
                      mv_gtin = dget v ''matnr'' (PStr []),
                      mv_image = dget v ''image500px'' (PStr [])\<rparr>]))
      | _ \<Rightarrow> Inr [])"

definition mkto_variants ::
  "(pyval \<Rightarrow> string) \<Rightarrow> (string \<times> pyval) list \<Rightarrow> pyerror + mkto_variant list" where
  "mkto_variants pystr raw_data =
     (case map_of raw_data ''variants'' of
        Some (PDict vs) \<Rightarrow>
          collect (map (mkto_one_variant pystr raw_data) (as_list (dget vs ''variant'' (PList []))))
      | _ \<Rightarrow> Inr [])"

text \<open>
  \<open>_standardize_mkto_product\<close>.  The first \<open>raw_data.get\<close> raises on a record that is
  not a dict (an element with text and no children is converted to a string).  The
  \<open>weight\<close> and \<open>dimensions\<close> entries of the result, which are number formatting and
  raise nothing, are left out.
\<close>

definition standardize_mkto_product :: "(pyval \<Rightarrow> string) \<Rightarrow> pyval \<Rightarrow> pyerror + mkto_product" where
  "standardize_mkto_product pystr raw =
     (case raw of
        PDict raw_data \<Rightarrow>
          (let images = mkto_images raw_data
           in ebind (mkto_categories raw_data) (\<lambda>categories.
              ebind (mkto_variants pystr raw_data) (\<lambda>variants.
                Inr \<lparr>mp_supplier_ref = dget raw_data ''ref'' (PStr []),
                     mp_name = dget raw_data ''name'' (PStr []),
                     mp_type = dget raw_data ''type'' (PStr []),
                     mp_description = dget raw_data ''extendedinfo'' (PStr []),
                     mp_short_description = dget raw_data ''otherinfo'' (PStr []),
                     mp_composition = dget raw_data ''composition'' (PStr []),
                     mp_brand = dget raw_data ''brand'' (PStr []),
                     mp_main_image = (case images of [] \<Rightarrow> PStr [] | i # rest \<Rightarrow> i),
                     mp_images = images,
                     mp_categories = categories,
                     mp_variants = variants,
                     mp_is_printable = py_truthy (dget raw_data ''printcode'' PNone),
                     mp_print_code = dget raw_data ''printcode'' (PStr []),
                     mp_keywords = dget raw_data ''keywords'' (PStr []),
                     mp_raw_data = raw\<rparr>)))
      | _ \<Rightarrow> Inl AttributeError)"

text \<open>
  The cache behind \<open>django.core.cache\<close>, one entry per key: a backend that is down
  raises on every call.
\<close>

datatype 'a cache = CacheDown | CacheUp "'a option"

text \<open>\<open>cached_data[:limit]\<close>; a negative bound counts from the end.\<close>

definition py_slice_to :: "int \<Rightarrow> 'a list \<Rightarrow> 'a list" where
  "py_slice_to limit xs =
     (if 0 \<le> limit then take (nat limit) xs else take (length xs - nat (- limit)) xs)"

definition limit_set :: "int option \<Rightarrow> bool" where
  "limit_set limit = (case limit of None \<Rightarrow> False | Some l \<Rightarrow> l \<noteq> 0)"

text \<open>
  The product loop of \<open>MKTOParser.get_products\<close> over what the generator yields:
  \<open>products\<close> and \<open>count\<close> are the loop's variables; the \<open>break\<close> leaves the rest of the
  generator, and the exception it may end with, unread.
\<close>

fun mkto_product_loop ::
  "(pyval \<Rightarrow> string) \<Rightarrow> int option \<Rightarrow> pyval list \<Rightarrow> pyerror option \<Rightarrow> mkto_product list \<Rightarrow> nat
     \<Rightarrow> pyerror + mkto_product list" where
  "mkto_product_loop pystr limit [] err products count =
     (case err of None \<Rightarrow> Inr products | Some e \<Rightarrow> Inl e)"
| "mkto_product_loop pystr limit (product_data # rest) err products count =
     (case standardize_mkto_product pystr product_data of
        Inl e \<Rightarrow> Inl e
      | Inr standardized_product \<Rightarrow>
          if limit_reached limit (Suc count) then Inr (products @ [standardized_product])
          else mkto_product_loop pystr limit rest err (products @ [standardized_product]) (Suc count))"

text \<open>
  \<open>MKTOParser.get_products\<close>.  \<open>xml_file\<close> is \<open>None\<close> when the file does not exist.
  The result is the returned list or the raised exception, with the cache afterwards.
\<close>

definition mkto_get_products ::
  "(pyval \<Rightarrow> string) \<Rightarrow> bool \<Rightarrow> mkto_product list cache \<Rightarrow> xml_event list option
     \<Rightarrow> int option \<Rightarrow> bool \<Rightarrow> (pyerror + mkto_product list) \<times> mkto_product list cache" where
  "mkto_get_products pystr cache_available cache xml_file limit force_refresh =
     (let cached_data = (if \<not> force_refresh \<and> cache_available
                         then (case cache of CacheUp (Some c) \<Rightarrow> c | _ \<Rightarrow> [])
                         else [])
      in if cached_data \<noteq> []
         then (Inr (case limit of
                      None \<Rightarrow> cached_data
                    | Some l \<Rightarrow> if l \<noteq> 0 then py_slice_to l cached_data else cached_data),
               cache)
         else
           (case xml_file of
              None \<Rightarrow> (Inl APIError, cache)
            | Some events \<Rightarrow>
                (case parse_xml_iterative events ''product'' of
                   (records, err) \<Rightarrow>
                     (case mkto_product_loop pystr limit records err [] 0 of
                        Inl e \<Rightarrow> (Inl APIError, cache)
                      | Inr products \<Rightarrow>
                          (Inr products,
                           if cache_available
                           then (case cache of CacheDown \<Rightarrow> CacheDown | CacheUp c \<Rightarrow> CacheUp (Some products))
                           else cache)))))"

section \<open>REST client: \<open>suppliers/clients/midocean_client.py\<close>\<close>

text \<open>\<open>sub in s\<close> for strings.\<close>

fun contains :: "string \<Rightarrow> string \<Rightarrow> bool" where
  "contains sub [] = (sub = [])"
| "contains sub (c # cs) = (take (length sub) (c # cs) = sub \<or> contains sub cs)"

text \<open>\<open>key in v\<close> and \<open>v[key]\<close> for a string key.\<close>

fun py_in :: "string \<Rightarrow> pyval \<Rightarrow> pyerror + bool" where
  "py_in key (PDict kvs) = Inr (map_of kvs key \<noteq> None)"
| "py_in key (PList xs) = Inr (PStr key \<in> set xs)"
| "py_in key (PStr s) = Inr (contains key s)"
| "py_in key v = Inl TypeError"

fun py_index :: "pyval \<Rightarrow> string \<Rightarrow> pyerror + pyval" where
  "py_index (PDict kvs) key = (case map_of kvs key of None \<Rightarrow> Inl KeyError | Some v \<Rightarrow> Inr v)"
| "py_index v key = Inl TypeError"

fun py_sized :: "pyval \<Rightarrow> bool" where
  "py_sized (PStr s) = True"
| "py_sized (PList xs) = True"
| "py_sized (PDict kvs) = True"
| "py_sized v = False"

text \<open>\<open>cache.get(key)\<close> and \<open>cache.set(key, value, ttl)\<close>.\<close>

definition cache_get :: "'a cache \<Rightarrow> pyerror + 'a option" where
  "cache_get c = (case c of CacheDown \<Rightarrow> Inl ConnectionError | CacheUp v \<Rightarrow> Inr v)"

definition cache_set :: "'a cache \<Rightarrow> 'a \<Rightarrow> pyerror + 'a cache" where
  "cache_set c v = (case c of CacheDown \<Rightarrow> Inl ConnectionError | CacheUp old \<Rightarrow> Inr (CacheUp (Some v)))"

text \<open>
  The body of the \<open>try\<close> of \<open>MidoceanClient.get_products\<close>; \<open>response\<close> is what
  \<open>_make_request\<close> returns or raises.  The result carries the cache, which
  \<open>cache.set\<close> has already written when the later \<open>len(products)\<close> raises.
\<close>

definition midocean_fetch ::
  "pyval cache \<Rightarrow> pyerror + pyval \<Rightarrow> (pyerror + pyval) \<times> pyval cache" where
  "midocean_fetch cache response =
     (case response of
        Inl e \<Rightarrow> (Inl e, cache)
      | Inr data \<Rightarrow>
          (case ebind (py_in ''products'' data) (\<lambda>has_products.
                  if has_products then py_index data ''products''
                  else Inr (if is_list data then data else PList [])) of
             Inl e \<Rightarrow> (Inl e, cache)
           | Inr products \<Rightarrow>
               (case cache_set cache products of
                  Inl e \<Rightarrow> (Inl e, cache)
                | Inr cache' \<Rightarrow>
                    (if py_sized products then Inr products else Inl TypeError, cache'))))"

text \<open>
  \<open>MidoceanClient.get_products(language, **kwargs)\<close>: \<open>limit\<close> arrives among the
  keyword arguments, of which only \<open>force_refresh\<close> is read.  The cache lookup is
  outside the \<open>try\<close>; every exception inside it is raised again as \<open>APIError\<close>.
\<close>

definition midocean_get_products ::
  "pyval cache \<Rightarrow> pyerror + pyval \<Rightarrow> int option \<Rightarrow> bool \<Rightarrow> (pyerror + pyval) \<times> pyval cache" where
  "midocean_get_products cache response limit force_refresh =
     (case cache_get cache of
        Inl e \<Rightarrow> (Inl e, cache)
      | Inr cached_data \<Rightarrow>
          if (case cached_data of None \<Rightarrow> False | Some c \<Rightarrow> py_truthy c) \<and> \<not> force_refresh
          then (Inr (case cached_data of None \<Rightarrow> PNone | Some c \<Rightarrow> c), cache)
          else (case midocean_fetch cache response of
                  (Inl e, cache') \<Rightarrow> (Inl APIError, cache')
                | (Inr products, cache') \<Rightarrow> (Inr products, cache')))"

section \<open>Whole-file XML client: \<open>suppliers/clients/makito_parser.py\<close>\<close>

text \<open>\<open>_xml_to_dict\<close>: as the streaming client's conversion, with the attributes first.\<close>

fun xml_to_dict :: "element \<Rightarrow> pyval" where
  "xml_to_dict (Element tg attrib txt chs) =
     (let stripped = (case txt of None \<Rightarrow> [] | Some t \<Rightarrow> py_strip t);
          result = foldl (\<lambda>r (k, v). dict_set r k (PStr v)) [] attrib
      in if stripped \<noteq> [] \<and> chs = [] then PStr stripped
         else PDict (foldl add_child
                       (if stripped \<noteq> [] then dict_set result ''_text'' (PStr stripped) else result)
                       (map (\<lambda>c. (el_tag c, xml_to_dict c)) chs)))"

text \<open>What \<open>_parse_xml_file\<close> finds at the path.\<close>

datatype xml_file = NoFile | EmptyFile | NotWellFormed | Document element

definition parse_xml_file :: "xml_file \<Rightarrow> pyerror + element" where
  "parse_xml_file f =
     (case f of
        NoFile \<Rightarrow> Inl APIError
      | EmptyFile \<Rightarrow> Inl APIError
      | NotWellFormed \<Rightarrow> Inl DataParsingError
      | Document r \<Rightarrow> Inr r)"

record makito_product =
  kp_supplier_ref :: pyval
  kp_name :: pyval
  kp_main_image :: pyval
  kp_images :: "pyval list"
  kp_categories :: "(pyval \<times> pyval) list"
  kp_variants :: "(string \<times> pyval) list list"
  kp_print_code :: pyval
  kp_raw_data :: pyval

text \<open>\<open>_extract_images\<close>, \<open>_extract_categories\<close>, \<open>_extract_variants\<close>.\<close>

definition makito_images :: "(string \<times> pyval) list \<Rightarrow> pyerror + pyval list" where
  "makito_images product_data =
     (let images = (if py_truthy (dget product_data ''imagemain'' PNone)
                    then [dget product_data ''imagemain'' PNone] else [])
      in case map_of product_data ''images'' of
           None \<Rightarrow> Inr images
         | Some imgs \<Rightarrow>
             ebind (py_in ''image'' imgs) (\<lambda>has_image.
               if \<not> has_image then Inr images
               else ebind (py_index imgs ''image'') (\<lambda>image_list.
                 Inr (foldl (\<lambda>acc img.
                        case img of
                          PDict i \<Rightarrow>
                            (case map_of i ''imagemax'' of
                               None \<Rightarrow> acc
                             | Some m \<Rightarrow> if py_truthy m \<and> m \<notin> set acc then acc @ [m] else acc)
                        | _ \<Rightarrow> acc)
                      images (as_list image_list)))))"

definition makito_categories :: "(string \<times> pyval) list \<Rightarrow> pyerror + (pyval \<times> pyval) list" where
  "makito_categories product_data =
     (case map_of product_data ''categories'' of
        None \<Rightarrow> Inr []
      | Some (PDict cat_data) \<Rightarrow>
          Inr (concat (map (\<lambda>i.
                 let r = dget cat_data (''category_ref_'' @ str_nat i) PNone;
                     n = dget cat_data (''category_name_'' @ str_nat i) PNone
                 in if py_truthy r \<and> py_truthy n then [(r, n)] else []) [1..<6]))
      | Some v \<Rightarrow> Inl AttributeError)"

definition makito_one_variant :: "pyval \<Rightarrow> pyerror + (string \<times> pyval) list list" where
  "makito_one_variant variant =
     (case variant of
        PDict v \<Rightarrow>
          Inr [[(''matnr'', dget v ''matnr'' (PStr [])),
                (''refct'', dget v ''refct'' (PStr [])),
                (''colour'', dget v ''colour'' (PStr [])),
                (''colour_name'', dget v ''colourname'' (PStr [])),
                (''size'', dget v ''size'' (PStr [])),
                (''image'', dget v ''image500px'' (PStr []))]]
      | _ \<Rightarrow> Inl AttributeError)"

definition makito_variants :: "(string \<times> pyval) list \<Rightarrow> pyerror + (string \<times> pyval) list list" where
  "makito_variants product_data =
     (case map_of product_data ''variants'' of
        None \<Rightarrow> Inr []
      | Some vs \<Rightarrow>
          ebind (py_in ''variant'' vs) (\<lambda>has_variant.
            if \<not> has_variant then Inr []
            else ebind (py_index vs ''variant'') (\<lambda>variant_list.
              collect (map makito_one_variant (as_list variant_list)))))"

text \<open>
  \<open>_standardize_product_data\<close>; the entries that only copy or format a field of the
  record are represented by \<open>supplier_ref\<close>, \<open>name\<close>, \<open>main_image\<close> and \<open>print_code\<close>.
\<close>

definition standardize_product_data :: "pyval \<Rightarrow> pyerror + makito_product" where
  "standardize_product_data raw =
     (case raw of
        PDict raw_data \<Rightarrow>
          ebind (makito_images raw_data) (\<lambda>images.
          ebind (makito_categories raw_data) (\<lambda>categories.
          ebind (makito_variants raw_data) (\<lambda>variants.
            Inr \<lparr>kp_supplier_ref = dget raw_data ''ref'' (PStr []),
                 kp_name = dget raw_data ''name'' (PStr []),
                 kp_main_image = dget raw_data ''imagemain'' (PStr []),
                 kp_images = images,
                 kp_categories = categories,
                 kp_variants = variants,
                 kp_print_code = dget raw_data ''printcode'' (PStr []),
                 kp_raw_data = raw\<rparr>)))
      | _ \<Rightarrow> Inl AttributeError)"

fun emap :: "('a \<Rightarrow> pyerror + 'b) \<Rightarrow> 'a list \<Rightarrow> pyerror + 'b list" where
  "emap f [] = Inr []"
| "emap f (x # xs) =
     (case f x of
        Inl e \<Rightarrow> Inl e
      | Inr y \<Rightarrow> (case emap f xs of Inl e \<Rightarrow> Inl e | Inr ys \<Rightarrow> Inr (y # ys)))"

text \<open>The body of the \<open>try\<close> of \<open>MakitoParser.get_products\<close>.\<close>

definition makito_fetch ::
  "makito_product list cache \<Rightarrow> xml_file \<Rightarrow> pyerror + makito_product list \<times> makito_product list cache" where
  "makito_fetch cache f =
     ebind (parse_xml_file f) (\<lambda>root_elem.
       if el_tag root_elem \<noteq> ''catalog'' then Inl DataParsingError
       else
         ebind (emap (\<lambda>product_elem. standardize_product_data (xml_to_dict product_elem))
                  (filter (\<lambda>c. el_tag c = ''product'') (el_children root_elem))) (\<lambda>products.
         ebind (cache_set cache products) (\<lambda>cache'.
           Inr (products, cache'))))"

text \<open>
  \<open>MakitoParser.get_products(**kwargs)\<close>: again only \<open>force_refresh\<close> is read from the
  keyword arguments.
\<close>

definition makito_get_products ::
  "makito_product list cache \<Rightarrow> xml_file \<Rightarrow> int option \<Rightarrow> bool
     \<Rightarrow> (pyerror + makito_product list) \<times> makito_product list cache" where
  "makito_get_products cache f limit force_refresh =
     (case cache_get cache of
        Inl e \<Rightarrow> (Inl e, cache)
      | Inr cached_data \<Rightarrow>
          if (case cached_data of None \<Rightarrow> False | Some c \<Rightarrow> c \<noteq> []) \<and> \<not> force_refresh
          then (Inr (case cached_data of None \<Rightarrow> [] | Some c \<Rightarrow> c), cache)
          else (case makito_fetch cache f of
                  Inl e \<Rightarrow> (Inl APIError, cache)
                | Inr (products, cache') \<Rightarrow> (Inr products, cache')))"

section \<open>The persisted schema: \<open>suppliers/models.py\<close>, \<open>products/models.py\<close>, \<open>sync/models.py\<close>\<close>

text \<open>
  One list of rows per table, in insertion order; a foreign key is the id of the row it
  points to.  A column holds the value the code passes; the conversions and column checks
  of the database, other than uniqueness, are not modelled.  Of the descriptive columns of a
  product only \<open>name\<close> is kept: the others are written by the same statement in the same
  way.  \<open>timezone.now()\<close> is a parameter \<open>now\<close> of the functions that call it.
\<close>

record supplier =
  sup_id :: nat
  sup_name :: string
  sup_code :: string
  sup_supplier_type :: string
  sup_is_active :: bool
  sup_last_sync :: "nat option"

record product =
  p_id :: nat
  p_supplier :: nat
  p_supplier_ref :: string
  p_sku :: string
  p_name :: string
  p_base_price :: "rat option"
  p_currency :: string

record product_variant =
  pv_id :: nat
  pv_product :: nat
  pv_supplier_variant_ref :: string
  pv_sku :: string
  pv_color :: string
  pv_color_code :: string
  pv_size :: string
  pv_gtin :: string
  pv_image :: string

record stock =
  st_variant :: nat
  st_stock_quantity :: pyval
  st_availability_status :: pyval
  st_next_arrival_date :: pyval
  st_next_arrival_quantity :: pyval
  st_supplier_updated_at :: nat

record price_row =
  pr_variant :: nat
  pr_price :: pyval
  pr_currency :: pyval
  pr_min_quantity :: pyval
  pr_max_quantity :: pyval
  pr_valid_until :: pyval
  pr_is_active :: bool

text \<open>\<open>SyncService.stats\<close>.\<close>

record stats =
  products_processed :: nat
  products_created :: nat
  products_updated :: nat
  products_errors :: nat
  variants_processed :: nat
  stock_updated :: nat
  prices_updated :: nat
  woo_synced :: nat

definition zero_stats :: stats where
  "zero_stats = \<lparr>products_processed = 0, products_created = 0, products_updated = 0,
                  products_errors = 0, variants_processed = 0, stock_updated = 0,
                  prices_updated = 0, woo_synced = 0\<rparr>"

text \<open>
  The \<open>context_data\<close> column of a \<open>SyncError\<close>: the service stores there the
  statistics of the run (\<open>{'stats': self.stats}\<close>, line 133), the raw product record
  (line 192) or the variant dict (line 452).
\<close>

datatype context_data =
  ContextStats stats
| ContextRecord "(string \<times> pyval) list"
| ContextVariant variant_data

record sync_error =
  se_supplier :: nat
  se_error_type :: string
  se_severity :: string
  se_error :: pyerror
  se_object_type :: string
  se_object_id :: string
  se_context_data :: context_data

record sync_log =
  sl_id :: nat
  sl_supplier :: nat
  sl_sync_type :: string
  sl_status :: string
  sl_products_processed :: nat
  sl_products_created :: nat
  sl_products_updated :: nat
  sl_products_errors :: nat
  sl_completed_at :: "nat option"

record db =
  db_suppliers :: "supplier list"
  db_products :: "product list"
  db_variants :: "product_variant list"
  db_stocks :: "stock list"
  db_prices :: "price_row list"
  db_sync_errors :: "sync_error list"
  db_sync_logs :: "sync_log list"

text \<open>The next value of an auto-increment primary key.\<close>

definition next_id :: "nat list \<Rightarrow> nat" where
  "next_id ids = Suc (foldr max ids 0)"

section \<open>Variant upsert: \<open>SyncService._sync_product_variants\<close>\<close>

text \<open>\<open>variant_data.get(key, default)\<close> on a string-valued dict.\<close>

definition vget :: "string option \<Rightarrow> string \<Rightarrow> string" where
  "vget v dflt = (case v of None \<Rightarrow> dflt | Some s \<Rightarrow> s)"

text \<open>Lines 409 to 415: the incoming SKU, stripped, or a synthesized one when it is empty.\<close>

definition computed_sku :: "product \<Rightarrow> variant_data \<Rightarrow> string" where
  "computed_sku product vd =
     (let sku = py_strip (vget (vd_sku vd) [])
      in if sku = []
         then py_replace ''__'' ''_''
                (py_replace '' '' ''_''
                   (py_replace ''/'' []
                      (''MAK_'' @ p_supplier_ref product @ ''_'' @ vget (vd_color vd) ''NOCOLOR''
                         @ ''_'' @ vget (vd_size vd) ''NOSIZE'')))
         else sku)"

text \<open>Lines 410, 417 and 418.\<close>

definition computed_variant_ref :: "product \<Rightarrow> variant_data \<Rightarrow> string" where
  "computed_variant_ref product vd =
     (let supplier_variant_ref = py_strip (vget (vd_supplier_variant_ref vd) [])
      in if supplier_variant_ref = []
         then p_supplier_ref product @ ''_'' @ vget (vd_color vd) [] @ ''_'' @ vget (vd_size vd) []
         else supplier_variant_ref)"

text \<open>
  Lines 421 to 424: when a variant of another product holds the SKU, the id of the product
  being written is appended, once.
\<close>

definition final_sku :: "product_variant list \<Rightarrow> product \<Rightarrow> string \<Rightarrow> string" where
  "final_sku vs product sku =
     (if list_ex (\<lambda>v. pv_sku v = sku \<and> pv_product v \<noteq> p_id product) vs
      then sku @ ''_'' @ str_nat (p_id product)
      else sku)"

text \<open>
  \<open>ProductVariant.objects.update_or_create(product, supplier_variant_ref, defaults)\<close>
  under the constraints of the model: \<open>sku\<close> is unique, so a write that would give two
  rows the same SKU raises \<open>IntegrityError\<close>.  The result tells whether a row was
  created.
\<close>

definition variant_update_or_create ::
  "product_variant list \<Rightarrow> product \<Rightarrow> string \<Rightarrow> string \<Rightarrow> variant_data
     \<Rightarrow> pyerror + product_variant list \<times> bool" where
  "variant_update_or_create vs product supplier_variant_ref sku vd =
     (case filter (\<lambda>v. pv_product v = p_id product \<and> pv_supplier_variant_ref v = supplier_variant_ref) vs of
        [] \<Rightarrow>
          if list_ex (\<lambda>v. pv_sku v = sku) vs then Inl IntegrityError
          else Inr (vs @ [\<lparr>pv_id = next_id (map pv_id vs), pv_product = p_id product,
                            pv_supplier_variant_ref = supplier_variant_ref, pv_sku = sku,
                            pv_color = vget (vd_color vd) [],
                            pv_color_code = vget (vd_color_code vd) [],
                            pv_size = vget (vd_size vd) [],
                            pv_gtin = vget (vd_gtin vd) [],
                            pv_image = vget (vd_image vd) []\<rparr>], True)
      | [old] \<Rightarrow>
          if list_ex (\<lambda>v. pv_sku v = sku \<and> pv_id v \<noteq> pv_id old) vs then Inl IntegrityError
          else Inr (map (\<lambda>v. if pv_id v = pv_id old
                               then v\<lparr>pv_sku := sku,
                                      pv_color := vget (vd_color vd) [],
                                      pv_color_code := vget (vd_color_code vd) [],
                                      pv_size := vget (vd_size vd) [],
                                      pv_gtin := vget (vd_gtin vd) [],
                                      pv_image := vget (vd_image vd) []\<rparr>
                               else v) vs, False)
      | _ \<Rightarrow> Inl MultipleObjectsReturned)"

text \<open>One turn of the loop of \<open>_sync_product_variants\<close>, with its exception handler.\<close>

definition sync_one_variant :: "product \<Rightarrow> variant_data \<Rightarrow> db \<times> stats \<Rightarrow> db \<times> stats" where
  "sync_one_variant product vd s =
     (case s of (d, st) \<Rightarrow>
        (let sku = final_sku (db_variants d) product (computed_sku product vd);
             supplier_variant_ref = computed_variant_ref product vd
         in case variant_update_or_create (db_variants d) product supplier_variant_ref sku vd of
              Inr (vs, created) \<Rightarrow>
                (d\<lparr>db_variants := vs\<rparr>,
                 if created then st\<lparr>variants_processed := Suc (variants_processed st)\<rparr> else st)
            | Inl e \<Rightarrow>
                (d\<lparr>db_sync_errors := db_sync_errors d @
                      [\<lparr>se_supplier = p_supplier product, se_error_type = ''VALIDATION_ERROR'',
                        se_severity = ''MEDIUM'', se_error = e, se_object_type = ''variant'',
                        se_object_id = vget (vd_sku vd) ''unknown'',
                        se_context_data = ContextVariant vd\<rparr>]\<rparr>,
                 st)))"

definition sync_product_variants :: "product \<Rightarrow> variant_data list \<Rightarrow> db \<times> stats \<Rightarrow> db \<times> stats" where
  "sync_product_variants product variants_data s = foldl (\<lambda>s vd. sync_one_variant product vd s) s variants_data"

section \<open>Price and stock mapping: \<open>sync/services/data_mapper.py\<close>\<close>

text \<open>
  \<open>float(v)\<close> and \<open>int(v)\<close>; the conversion of a string is the parameter
  \<open>fparse\<close>, respectively \<open>iparse\<close>.
\<close>

fun py_float :: "(string \<Rightarrow> rat option) \<Rightarrow> pyval \<Rightarrow> pyerror + rat" where
  "py_float fparse (PInt i) = Inr (of_int i)"
| "py_float fparse (PFloat x) = Inr x"
| "py_float fparse (PBool b) = Inr (if b then 1 else 0)"
| "py_float fparse (PStr s) = (case fparse s of None \<Rightarrow> Inl ValueError | Some x \<Rightarrow> Inr x)"
| "py_float fparse v = Inl TypeError"

fun py_int :: "(string \<Rightarrow> int option) \<Rightarrow> pyval \<Rightarrow> pyerror + int" where
  "py_int iparse (PInt i) = Inr i"
| "py_int iparse (PFloat x) = Inr (py_trunc x)"
| "py_int iparse (PBool b) = Inr (if b then 1 else 0)"
| "py_int iparse (PStr s) = (case iparse s of None \<Rightarrow> Inl ValueError | Some i \<Rightarrow> Inr i)"
| "py_int iparse v = Inl TypeError"

text \<open>\<open>for x in v\<close>.\<close>

fun py_iter :: "pyval \<Rightarrow> pyerror + pyval list" where
  "py_iter (PList xs) = Inr xs"
| "py_iter (PDict kvs) = Inr (map (\<lambda>kv. PStr (fst kv)) kvs)"
| "py_iter (PStr s) = Inr (map (\<lambda>c. PStr [c]) s)"
| "py_iter v = Inl TypeError"

text \<open>\<open>v > 0\<close>.\<close>

fun py_positive :: "pyval \<Rightarrow> pyerror + bool" where
  "py_positive (PInt i) = Inr (0 < i)"
| "py_positive (PFloat x) = Inr (0 < x)"
| "py_positive (PBool b) = Inr b"
| "py_positive v = Inl TypeError"

type_synonym pydict = "(string \<times> pyval) list"

definition midocean_scale_price ::
  "(string \<Rightarrow> rat option) \<Rightarrow> (string \<Rightarrow> int option) \<Rightarrow> pyval \<Rightarrow> pyval \<Rightarrow> pyval \<Rightarrow> pyerror + pydict" where
  "midocean_scale_price fparse iparse sku valid_until scale =
     ebind (py_get scale ''price'' (PInt 0)) (\<lambda>p.
     ebind (py_float fparse p) (\<lambda>pr.
     ebind (py_get scale ''minimum_quantity'' (PInt 1)) (\<lambda>m.
     ebind (py_int iparse m) (\<lambda>mn.
       Inr [(''sku'', sku), (''price'', PFloat pr), (''min_quantity'', PInt mn),
            (''max_quantity'', PNone), (''currency'', PStr ''EUR''),
            (''valid_until'', valid_until)]))))"

definition map_midocean_prices ::
  "(string \<Rightarrow> rat option) \<Rightarrow> (string \<Rightarrow> int option) \<Rightarrow> pyval \<Rightarrow> pyerror + pydict list" where
  "map_midocean_prices fparse iparse raw =
     (case raw of
        PDict raw_data \<Rightarrow>
          (let sku = dget raw_data ''sku'' (PStr []);
               valid_until = dget raw_data ''valid_until'' PNone
           in ebind (py_float fparse (dget raw_data ''price'' (PInt 0))) (\<lambda>base_price.
                ebind (case map_of raw_data ''scale'' of
                         None \<Rightarrow> Inr []
                       | Some sc \<Rightarrow>
                           ebind (py_iter sc) (\<lambda>scales.
                             emap (midocean_scale_price fparse iparse sku valid_until) scales)) (\<lambda>scaled.
                  Inr ([(''sku'', sku), (''price'', PFloat base_price), (''min_quantity'', PInt 1),
                        (''max_quantity'', PNone), (''currency'', PStr ''EUR''),
                        (''valid_until'', valid_until)] # scaled))))
      | _ \<Rightarrow> Inl AttributeError)"

definition makito_price_range :: "pyval \<Rightarrow> pyval \<Rightarrow> pyerror + pydict list" where
  "makito_price_range supplier_ref price_range =
     ebind (py_get price_range ''price'' (PInt 0)) (\<lambda>p.
     ebind (py_positive p) (\<lambda>pos.
       if \<not> pos then Inr []
       else ebind (py_index price_range ''min_quantity'') (\<lambda>mn.
              Inr [[(''supplier_ref'', supplier_ref), (''price'', p), (''min_quantity'', mn),
                    (''max_quantity'', PNone), (''currency'', PStr ''EUR'')]])))"

definition map_makito_prices :: "pyval \<Rightarrow> pyerror + pydict list" where
  "map_makito_prices raw =
     ebind (py_get raw ''supplier_ref'' (PStr [])) (\<lambda>supplier_ref.
     ebind (py_get raw ''price_ranges'' (PList [])) (\<lambda>ranges.
     ebind (py_iter ranges) (\<lambda>rs.
       collect (map (makito_price_range supplier_ref) rs))))"

definition bic_price_entry :: "supplier \<Rightarrow> pyval \<Rightarrow> pyval \<Rightarrow> pyval \<Rightarrow> pyerror + pydict" where
  "bic_price_entry supplier supplier_ref sku price_data =
     ebind (py_get price_data ''min_quantity'' (PInt 1)) (\<lambda>mn.
     ebind (py_get price_data ''max_quantity'' (PInt 999999)) (\<lambda>mx.
     ebind (py_get price_data ''price'' (PInt 0)) (\<lambda>p.
     ebind (py_get price_data ''currency'' (PStr ''EUR'')) (\<lambda>cur.
       Inr [(''supplier_ref'', supplier_ref), (''sku'', sku),
            (''supplier'', PInt (int (sup_id supplier))),
            (''min_quantity'', mn), (''max_quantity'', mx), (''price'', p),
            (''currency'', cur), (''valid_from'', PNone), (''valid_to'', PNone)]))))"

text \<open>\<open>_map_bic_prices\<close>: any exception gives the empty list.\<close>

definition map_bic_prices :: "supplier \<Rightarrow> pyval \<Rightarrow> pydict list" where
  "map_bic_prices supplier raw =
     (case ebind (py_get raw ''prices'' (PList [])) (\<lambda>bic_prices.
             ebind (py_iter bic_prices) (\<lambda>ps.
             ebind (py_get raw ''supplier_ref'' (PStr [])) (\<lambda>supplier_ref.
             ebind (py_get raw ''sku'' (PStr [])) (\<lambda>sku.
               emap (bic_price_entry supplier supplier_ref sku) ps)))) of
        Inl e \<Rightarrow> []
      | Inr prices \<Rightarrow> prices)"

definition map_price_data ::
  "(string \<Rightarrow> rat option) \<Rightarrow> (string \<Rightarrow> int option) \<Rightarrow> pyval \<Rightarrow> supplier \<Rightarrow> pyerror + pydict list" where
  "map_price_data fparse iparse raw_data supplier =
     (if sup_supplier_type supplier = ''MIDOCEAN'' then map_midocean_prices fparse iparse raw_data
      else if sup_supplier_type supplier = ''MAKITO'' then map_makito_prices raw_data
      else if sup_supplier_type supplier = ''BIC'' then Inr (map_bic_prices supplier raw_data)
      else Inl ValueError)"

text \<open>The price dict the grouped-CSV client puts under \<open>prices\<close>.\<close>

definition tier_dict :: "tier \<Rightarrow> pyval" where
  "tier_dict t =
     PDict [(''min_quantity'', PInt (min_quantity t)),
            (''max_quantity'', (case max_quantity t of None \<Rightarrow> PNone | Some m \<Rightarrow> PInt m)),
            (''price'', PFloat (price t)),
            (''currency'', PStr (currency t))]"

definition map_midocean_stock :: "(string \<Rightarrow> int option) \<Rightarrow> pyval \<Rightarrow> pyerror + pydict" where
  "map_midocean_stock iparse raw =
     (case raw of
        PDict raw_data \<Rightarrow>
          ebind (py_int iparse (dget raw_data ''qty'' (PInt 0))) (\<lambda>qty.
          ebind (if py_truthy (dget raw_data ''first_arrival_qty'' PNone)
                 then map_sum id PInt (py_int iparse (dget raw_data ''first_arrival_qty'' (PInt 0)))
                 else Inr PNone) (\<lambda>arrival.
            Inr [(''sku'', dget raw_data ''sku'' (PStr [])),
                 (''stock_quantity'', PInt qty),
                 (''availability_status'', PStr (if 0 < qty then ''available'' else ''out_of_stock'')),
                 (''next_arrival_date'', dget raw_data ''first_arrival_date'' PNone),
                 (''next_arrival_quantity'', arrival)]))
      | _ \<Rightarrow> Inl AttributeError)"

definition map_makito_stock :: "pyval \<Rightarrow> pyerror + pydict" where
  "map_makito_stock raw =
     (case raw of
        PDict raw_data \<Rightarrow>
          Inr [(''sku'', dget raw_data ''sku'' (PStr [])),
               (''supplier_ref'', dget raw_data ''supplier_ref'' (PStr [])),
               (''color'', dget raw_data ''color'' (PStr [])),
               (''size'', dget raw_data ''size'' (PStr [])),
               (''stock_quantity'', dget raw_data ''stock_quantity'' (PInt 0)),
               (''availability_status'', dget raw_data ''availability'' (PStr ''unknown''))]
      | _ \<Rightarrow> Inl AttributeError)"

definition map_bic_stock :: "supplier \<Rightarrow> pyval \<Rightarrow> pyerror + pydict" where
  "map_bic_stock supplier raw =
     (case raw of
        PDict raw_data \<Rightarrow>
          Inr [(''supplier_ref'', dget raw_data ''supplier_ref'' (PStr [])),
               (''sku'', dget raw_data ''sku'' (PStr [])),
               (''supplier'', PInt (int (sup_id supplier))),
               (''quantity'', PInt 0), (''location'', PStr []), (''updated_at'', PNone)]
      | _ \<Rightarrow> Inl AttributeError)"

definition map_stock_data :: "(string \<Rightarrow> int option) \<Rightarrow> pyval \<Rightarrow> supplier \<Rightarrow> pyerror + pydict" where
  "map_stock_data iparse raw_data supplier =
     (if sup_supplier_type supplier = ''MIDOCEAN'' then map_midocean_stock iparse raw_data
      else if sup_supplier_type supplier = ''MAKITO'' then map_makito_stock raw_data
      else if sup_supplier_type supplier = ''BIC'' then map_bic_stock supplier raw_data
      else Inl ValueError)"

section \<open>The synchronisation service: \<open>sync/services/sync_service.py\<close>\<close>

text \<open>
  \<open>_find_variant_by_sku\<close>: \<open>ProductVariant.objects.get(sku=sku, product__supplier=supplier)\<close>.
  A lookup value that is not a string is compared by its text (\<open>pystr\<close>); \<open>None\<close>
  matches no row.  \<open>DoesNotExist\<close> is caught and gives \<open>None\<close>; more than one match
  raises.
\<close>

definition variant_of_supplier :: "db \<Rightarrow> supplier \<Rightarrow> product_variant \<Rightarrow> bool" where
  "variant_of_supplier d supplier v =
     list_ex (\<lambda>p. p_id p = pv_product v \<and> p_supplier p = sup_id supplier) (db_products d)"

definition sku_matches :: "(pyval \<Rightarrow> string) \<Rightarrow> pyval \<Rightarrow> product_variant \<Rightarrow> bool" where
  "sku_matches pystr sku v = (sku \<noteq> PNone \<and> pv_sku v = py_format pystr sku)"

definition find_variant_by_sku ::
  "(pyval \<Rightarrow> string) \<Rightarrow> db \<Rightarrow> pyval \<Rightarrow> supplier \<Rightarrow> pyerror + product_variant option" where
  "find_variant_by_sku pystr d sku supplier =
     (case filter (\<lambda>v. sku_matches pystr sku v \<and> variant_of_supplier d supplier v) (db_variants d) of
        [] \<Rightarrow> Inr None
      | [v] \<Rightarrow> Inr (Some v)
      | _ \<Rightarrow> Inl MultipleObjectsReturned)"

subsection \<open>\<open>_sync_stock\<close>\<close>

text \<open>\<open>Stock.objects.update_or_create(variant=variant, defaults=...)\<close>.\<close>

definition stock_update_or_create :: "stock list \<Rightarrow> stock \<Rightarrow> pyerror + stock list" where
  "stock_update_or_create rows new =
     (case filter (\<lambda>r. st_variant r = st_variant new) rows of
        [] \<Rightarrow> Inr (rows @ [new])
      | [old] \<Rightarrow> Inr (map (\<lambda>r. if st_variant r = st_variant new then new else r) rows)
      | _ \<Rightarrow> Inl MultipleObjectsReturned)"

text \<open>The state of a stock or price run: the database, the statistics, \<open>updated_count\<close>.\<close>

type_synonym run = "db \<times> stats \<times> nat"

text \<open>The \<open>try\<close> of one turn of the stock loop; \<open>None\<close> when nothing is to be written.\<close>

definition stock_turn ::
  "(pyval \<Rightarrow> string) \<Rightarrow> (string \<Rightarrow> int option) \<Rightarrow> supplier \<Rightarrow> nat \<Rightarrow> pyval \<Rightarrow> db
     \<Rightarrow> pyerror + stock list option" where
  "stock_turn pystr iparse supplier now stock_data d =
     ebind (map_stock_data iparse stock_data supplier) (\<lambda>mapped_stock.
     ebind (find_variant_by_sku pystr d (dget mapped_stock ''sku'' PNone) supplier) (\<lambda>found.
       case found of
         None \<Rightarrow> Inr None
       | Some variant \<Rightarrow>
           map_sum id Some
             (stock_update_or_create (db_stocks d)
                \<lparr>st_variant = pv_id variant,
                 st_stock_quantity = dget mapped_stock ''stock_quantity'' (PInt 0),
                 st_availability_status = dget mapped_stock ''availability_status'' (PStr ''unknown''),
                 st_next_arrival_date = dget mapped_stock ''next_arrival_date'' PNone,
                 st_next_arrival_quantity = dget mapped_stock ''next_arrival_quantity'' PNone,
                 st_supplier_updated_at = now\<rparr>)))"

text \<open>One turn with its handler: an exception is logged and the turn changes nothing.\<close>

definition sync_stock_record ::
  "(pyval \<Rightarrow> string) \<Rightarrow> (string \<Rightarrow> int option) \<Rightarrow> supplier \<Rightarrow> nat \<Rightarrow> run \<Rightarrow> pyval \<Rightarrow> run" where
  "sync_stock_record pystr iparse supplier now s stock_data =
     (case s of (d, st, updated_count) \<Rightarrow>
        (case stock_turn pystr iparse supplier now stock_data d of
           Inr (Some rows) \<Rightarrow>
             (d\<lparr>db_stocks := rows\<rparr>, st\<lparr>stock_updated := Suc (stock_updated st)\<rparr>,
              Suc updated_count)
         | _ \<Rightarrow> s))"

record step_result =
  sr_total :: nat
  sr_updated :: nat
  sr_error :: "pyerror option"

text \<open>
  \<open>_sync_stock\<close>; \<open>raw_stock\<close> is what \<open>client.get_stock()\<close> returns or raises.  An
  exception of the fetch is caught here and reported in the result.
\<close>

definition sync_stock ::
  "(pyval \<Rightarrow> string) \<Rightarrow> (string \<Rightarrow> int option) \<Rightarrow> supplier \<Rightarrow> nat \<Rightarrow> pyerror + pyval list
     \<Rightarrow> db \<times> stats \<Rightarrow> step_result \<times> db \<times> stats" where
  "sync_stock pystr iparse supplier now fetched s =
     (case fetched of
        Inl e \<Rightarrow> (\<lparr>sr_total = 0, sr_updated = 0, sr_error = Some e\<rparr>, s)
      | Inr raw_stock \<Rightarrow>
          (case foldl (sync_stock_record pystr iparse supplier now) (fst s, snd s, 0) raw_stock of
             (d, st, updated_count) \<Rightarrow>
               (\<lparr>sr_total = length raw_stock, sr_updated = updated_count, sr_error = None\<rparr>, d, st)))"

subsection \<open>\<open>_sync_prices\<close>\<close>

text \<open>
  Lines 269 to 286, for one mapped price: the variant is looked up, all its price rows are
  deactivated, and the new row is created active.
\<close>

definition apply_price ::
  "(pyval \<Rightarrow> string) \<Rightarrow> supplier \<Rightarrow> pydict \<Rightarrow> run \<Rightarrow> pyerror + run" where
  "apply_price pystr supplier mapped_price s =
     (case s of (d, st, updated_count) \<Rightarrow>
        ebind (find_variant_by_sku pystr d (dget mapped_price ''sku'' PNone) supplier) (\<lambda>found.
          case found of
            None \<Rightarrow> Inr s
          | Some variant \<Rightarrow>
              Inr (d\<lparr>db_prices :=
                       map (\<lambda>r. if pr_variant r = pv_id variant then r\<lparr>pr_is_active := False\<rparr> else r)
                         (db_prices d)
                       @ [\<lparr>pr_variant = pv_id variant,
                           pr_price = dget mapped_price ''price'' (PInt 0),
                           pr_currency = dget mapped_price ''currency'' (PStr ''EUR''),
                           pr_min_quantity = dget mapped_price ''min_quantity'' (PInt 1),
                           pr_max_quantity = dget mapped_price ''max_quantity'' PNone,
                           pr_valid_until = dget mapped_price ''valid_until'' PNone,
                           pr_is_active = True\<rparr>]\<rparr>,
                   st\<lparr>prices_updated := Suc (prices_updated st)\<rparr>,
                   Suc updated_count)))"

text \<open>
  The inner loop: an exception leaves the loop, and what the earlier turns wrote stays.
  The result is the state reached.
\<close>

fun apply_prices :: "(pyval \<Rightarrow> string) \<Rightarrow> supplier \<Rightarrow> pydict list \<Rightarrow> run \<Rightarrow> run" where
  "apply_prices pystr supplier [] s = s"
| "apply_prices pystr supplier (mapped_price # rest) s =
     (case apply_price pystr supplier mapped_price s of
        Inl e \<Rightarrow> s
      | Inr s' \<Rightarrow> apply_prices pystr supplier rest s')"

definition sync_price_record ::
  "(pyval \<Rightarrow> string) \<Rightarrow> (string \<Rightarrow> rat option) \<Rightarrow> (string \<Rightarrow> int option) \<Rightarrow> supplier \<Rightarrow> run \<Rightarrow> pyval
     \<Rightarrow> run" where
  "sync_price_record pystr fparse iparse supplier s price_data =
     (case map_price_data fparse iparse price_data supplier of
        Inl e \<Rightarrow> s
      | Inr mapped_prices \<Rightarrow> apply_prices pystr supplier mapped_prices s)"

definition sync_prices ::
  "(pyval \<Rightarrow> string) \<Rightarrow> (string \<Rightarrow> rat option) \<Rightarrow> (string \<Rightarrow> int option) \<Rightarrow> supplier
     \<Rightarrow> pyerror + pyval list \<Rightarrow> db \<times> stats \<Rightarrow> step_result \<times> db \<times> stats" where
  "sync_prices pystr fparse iparse supplier fetched s =
     (case fetched of
        Inl e \<Rightarrow> (\<lparr>sr_total = 0, sr_updated = 0, sr_error = Some e\<rparr>, s)
      | Inr raw_prices \<Rightarrow>
          (case foldl (sync_price_record pystr fparse iparse supplier) (fst s, snd s, 0) raw_prices of
             (d, st, updated_count) \<Rightarrow>
               (\<lparr>sr_total = length raw_prices, sr_updated = updated_count, sr_error = None\<rparr>, d, st)))"

subsection \<open>\<open>_sync_products\<close>\<close>

text \<open>
  The dict \<open>DataMapper.map_product_data\<close> returns, as far as the service reads it.  An
  entry is \<open>None\<close> when the dict has no such key: \<open>mapped_data['supplier']\<close> and
  \<open>mapped_data['supplier_ref']\<close> then raise \<open>KeyError\<close>, the other reads fall back to
  their defaults.
\<close>

record mapped_data =
  md_supplier :: "nat option"
  md_supplier_ref :: "string option"
  md_sku :: "string option"
  md_name :: "string option"
  md_variants :: "variant_data list option"
  md_prices :: "pydict list option"

text \<open>
  \<open>_create_or_update_product\<close>: \<open>Product.objects.update_or_create(supplier, supplier_ref,
  defaults)\<close>; the product SKU is unique as well.
\<close>

definition create_or_update_product ::
  "product list \<Rightarrow> mapped_data \<Rightarrow> pyerror + product list \<times> product \<times> bool" where
  "create_or_update_product ps mapped =
     (case md_supplier mapped of
        None \<Rightarrow> Inl KeyError
      | Some supplier \<Rightarrow>
          (case md_supplier_ref mapped of
             None \<Rightarrow> Inl KeyError
           | Some supplier_ref \<Rightarrow>
               (case filter (\<lambda>p. p_supplier p = supplier \<and> p_supplier_ref p = supplier_ref) ps of
                  [] \<Rightarrow>
                    if list_ex (\<lambda>p. p_sku p = vget (md_sku mapped) []) ps then Inl IntegrityError
                    else (let new = \<lparr>p_id = next_id (map p_id ps), p_supplier = supplier,
                                     p_supplier_ref = supplier_ref,
                                     p_sku = vget (md_sku mapped) [],
                                     p_name = vget (md_name mapped) [],
                                     p_base_price = None, p_currency = ''EUR''\<rparr>
                          in Inr (ps @ [new], new, True))
                | [old] \<Rightarrow>
                    if list_ex (\<lambda>p. p_sku p = vget (md_sku mapped) [] \<and> p_id p \<noteq> p_id old) ps
                    then Inl IntegrityError
                    else (let new = old\<lparr>p_sku := vget (md_sku mapped) [],
                                         p_name := vget (md_name mapped) []\<rparr>
                          in Inr (map (\<lambda>p. if p_id p = p_id old then new else p) ps, new, False))
                | _ \<Rightarrow> Inl MultipleObjectsReturned)))"

text \<open>
  \<open>_process_product_enhancements\<close> catches every exception of its body.  Its effect on
  the tables modelled here is \<open>_assign_main_price\<close>: the price of the first tier, when
  it is a positive number, becomes the base price.  (The category table is not modelled;
  the calls of \<open>_sync_product_stock\<close> and \<open>_sync_product_prices\<close> name methods the class
  does not have, and the \<open>AttributeError\<close> is caught.)
\<close>

definition assign_main_price :: "(string \<Rightarrow> rat option) \<Rightarrow> (pyval \<Rightarrow> string) \<Rightarrow> product \<Rightarrow> pydict list \<Rightarrow> product" where
  "assign_main_price fparse pystr product prices_data =
     (case prices_data of
        [] \<Rightarrow> product
      | main_price_data # rest \<Rightarrow>
          (case py_positive (dget main_price_data ''price'' (PInt 0)) of
             Inr True \<Rightarrow>
               (case py_float fparse (dget main_price_data ''price'' (PInt 0)) of
                  Inr x \<Rightarrow> product\<lparr>p_base_price := Some x,
                                    p_currency := py_format pystr (dget main_price_data ''currency'' (PStr ''EUR''))\<rparr>
                | Inl e \<Rightarrow> product)
           | _ \<Rightarrow> product))"

definition process_product_enhancements ::
  "(string \<Rightarrow> rat option) \<Rightarrow> (pyval \<Rightarrow> string) \<Rightarrow> product \<Rightarrow> mapped_data \<Rightarrow> db \<Rightarrow> db" where
  "process_product_enhancements fparse pystr product mapped d =
     (let saved = assign_main_price fparse pystr product
                    (case md_prices mapped of None \<Rightarrow> [] | Some ps \<Rightarrow> ps)
      in d\<lparr>db_products := map (\<lambda>p. if p_id p = p_id product then saved else p) (db_products d)\<rparr>)"

record products_result =
  res_total :: nat
  res_created :: nat
  res_updated :: nat
  res_errors :: nat

text \<open>
  The state of a product run: the database, the statistics and the three local counters,
  kept in a \<open>products_result\<close> whose total is filled in at the end.
\<close>

type_synonym product_run = "db \<times> stats \<times> products_result"

text \<open>
  The body of the \<open>try\<close> of one turn of the product loop (lines 158 to 178), inside
  \<open>transaction.atomic()\<close>.  \<open>mapper\<close> is \<open>DataMapper.map_product_data\<close>: what it
  returns or raises for the raw record.
\<close>

definition product_turn ::
  "(pydict \<Rightarrow> supplier \<Rightarrow> pyerror + mapped_data) \<Rightarrow> (string \<Rightarrow> rat option) \<Rightarrow> (pyval \<Rightarrow> string)
     \<Rightarrow> supplier \<Rightarrow> pydict \<Rightarrow> product_run \<Rightarrow> pyerror + product_run" where
  "product_turn mapper fparse pystr supplier raw_product s =
     (case s of (d, st, res) \<Rightarrow>
        ebind (mapper raw_product supplier) (\<lambda>mapped.
        ebind (create_or_update_product (db_products d) mapped) (\<lambda>(ps, product, created).
          (let d1 = d\<lparr>db_products := ps\<rparr>;
               st1 = (if created then st\<lparr>products_created := Suc (products_created st)\<rparr>
                      else st\<lparr>products_updated := Suc (products_updated st)\<rparr>);
               res1 = (if created then res\<lparr>res_created := Suc (res_created res)\<rparr>
                       else res\<lparr>res_updated := Suc (res_updated res)\<rparr>);
               (d2, st2) = sync_product_variants product
                             (case md_variants mapped of None \<Rightarrow> [] | Some vs \<Rightarrow> vs) (d1, st1);
               d3 = process_product_enhancements fparse pystr product mapped d2
           in Inr (d3, st2\<lparr>products_processed := Suc (products_processed st2)\<rparr>, res1)))))"

text \<open>
  The handler of the turn (lines 180 to 195): the transaction is rolled back, so the row
  is appended to the tables as they were before the turn; the counters count the error.
\<close>

definition record_product_error ::
  "(pyval \<Rightarrow> string) \<Rightarrow> supplier \<Rightarrow> pydict \<Rightarrow> pyerror \<Rightarrow> product_run \<Rightarrow> product_run" where
  "record_product_error pystr supplier raw_product e s =
     (case s of (d, st, res) \<Rightarrow>
        (d\<lparr>db_sync_errors := db_sync_errors d @
             [\<lparr>se_supplier = sup_id supplier, se_error_type = ''PARSING_ERROR'',
               se_severity = ''MEDIUM'', se_error = e, se_object_type = ''product'',
               se_object_id = py_format pystr (dget raw_product ''supplier_ref'' (PStr [])),
               se_context_data = ContextRecord raw_product\<rparr>]\<rparr>,
         st\<lparr>products_errors := Suc (products_errors st)\<rparr>,
         res\<lparr>res_errors := Suc (res_errors res)\<rparr>))"

definition sync_one_product ::
  "(pydict \<Rightarrow> supplier \<Rightarrow> pyerror + mapped_data) \<Rightarrow> (string \<Rightarrow> rat option) \<Rightarrow> (pyval \<Rightarrow> string)
     \<Rightarrow> supplier \<Rightarrow> product_run \<Rightarrow> pydict \<Rightarrow> product_run" where
  "sync_one_product mapper fparse pystr supplier s raw_product =
     (case product_turn mapper fparse pystr supplier raw_product s of
        Inr s' \<Rightarrow> s'
      | Inl e \<Rightarrow> record_product_error pystr supplier raw_product e s)"

definition products_loop ::
  "(pydict \<Rightarrow> supplier \<Rightarrow> pyerror + mapped_data) \<Rightarrow> (string \<Rightarrow> rat option) \<Rightarrow> (pyval \<Rightarrow> string)
     \<Rightarrow> supplier \<Rightarrow> pydict list \<Rightarrow> product_run \<Rightarrow> product_run" where
  "products_loop mapper fparse pystr supplier raw_products s =
     foldl (sync_one_product mapper fparse pystr supplier) s raw_products"

text \<open>
  \<open>_sync_products\<close>; \<open>fetched\<close> is what \<open>client.get_products()\<close> returns or raises.  An
  exception of the fetch is logged and raised again.
\<close>

definition sync_products ::
  "(pydict \<Rightarrow> supplier \<Rightarrow> pyerror + mapped_data) \<Rightarrow> (string \<Rightarrow> rat option) \<Rightarrow> (pyval \<Rightarrow> string)
     \<Rightarrow> supplier \<Rightarrow> pyerror + pydict list \<Rightarrow> db \<times> stats
     \<Rightarrow> pyerror + products_result \<times> db \<times> stats" where
  "sync_products mapper fparse pystr supplier fetched s =
     (case fetched of
        Inl e \<Rightarrow> Inl e
      | Inr raw_products \<Rightarrow>
          (case products_loop mapper fparse pystr supplier raw_products
                  (fst s, snd s, \<lparr>res_total = 0, res_created = 0, res_updated = 0, res_errors = 0\<rparr>) of
             (d, st, res) \<Rightarrow> Inr (res\<lparr>res_total := length raw_products\<rparr>, d, st)))"

subsection \<open>\<open>sync_supplier\<close> and \<open>sync_all_suppliers\<close>\<close>

text \<open>
  What the client of a supplier answers to the three fetches of a run: the list returned
  or the exception raised.
\<close>

record client =
  cl_get_products :: "pyerror + pydict list"
  cl_get_stock :: "pyerror + pyval list"
  cl_get_prices :: "pyerror + pyval list"

text \<open>
  The collaborators of the service: the product mapper, Python's conversions, the clients
  the factory builds, the push to the external platform (which catches its own exceptions
  and returns the product table and the number of products pushed), and the clock.
\<close>

record env =
  e_mapper :: "pydict \<Rightarrow> supplier \<Rightarrow> pyerror + mapped_data"
  e_fparse :: "string \<Rightarrow> rat option"
  e_iparse :: "string \<Rightarrow> int option"
  e_pystr :: "pyval \<Rightarrow> string"
  e_client :: "supplier \<Rightarrow> client"
  e_woo :: "product list \<Rightarrow> product list \<times> nat"
  e_now :: nat

text \<open>\<open>SupplierClientFactory.create_client\<close>.\<close>

definition create_client :: "env \<Rightarrow> supplier \<Rightarrow> pyerror + client" where
  "create_client ev supplier =
     (if \<not> sup_is_active supplier then Inl ValueError
      else if sup_supplier_type supplier = ''MIDOCEAN'' then Inr (e_client ev supplier)
      else if sup_supplier_type supplier = ''MAKITO'' then Inr (e_client ev supplier)
      else if sup_supplier_type supplier = ''BIC'' then Inr (e_client ev supplier)
      else Inl ValueError)"

text \<open>
  \<open>SyncLog.mark_completed(self, status='SUCCESS')\<close> in \<open>suppliers/models.py\<close>: the log
  is saved with the status and the completion time, and a \<open>SUCCESS\<close> advances the
  supplier's \<open>last_sync\<close>.
\<close>

definition mark_completed :: "sync_log \<Rightarrow> string \<Rightarrow> nat \<Rightarrow> db \<Rightarrow> db" where
  "mark_completed sync_log status now d =
     (let saved = sync_log\<lparr>sl_status := status, sl_completed_at := Some now\<rparr>;
          d1 = d\<lparr>db_sync_logs := map (\<lambda>l. if sl_id l = sl_id sync_log then saved else l) (db_sync_logs d)\<rparr>
      in if status = ''SUCCESS''
         then d1\<lparr>db_suppliers :=
                   map (\<lambda>s. if sup_id s = sl_supplier sync_log then s\<lparr>sup_last_sync := Some now\<rparr> else s)
                     (db_suppliers d1)\<rparr>
         else d1)"

text \<open>
  A call \<open>sync_log.mark_completed(*args)\<close> with positional arguments: the method takes
  one besides \<open>self\<close>, so a call with more raises \<open>TypeError\<close> before the body runs.
\<close>

definition mark_completed_call :: "sync_log \<Rightarrow> string list \<Rightarrow> nat \<Rightarrow> db \<Rightarrow> pyerror + db" where
  "mark_completed_call sync_log args now d =
     (case args of
        [] \<Rightarrow> Inr (mark_completed sync_log ''SUCCESS'' now d)
      | [status] \<Rightarrow> Inr (mark_completed sync_log status now d)
      | _ \<Rightarrow> Inl TypeError)"

text \<open>\<open>_sync_to_woocommerce\<close>, seen from the run: it raises nothing.\<close>

definition sync_to_woocommerce :: "env \<Rightarrow> db \<times> stats \<Rightarrow> db \<times> stats" where
  "sync_to_woocommerce ev s =
     (case e_woo ev (db_products (fst s)) of
        (ps, synced_count) \<Rightarrow> ((fst s)\<lparr>db_products := ps\<rparr>, (snd s)\<lparr>woo_synced := synced_count\<rparr>))"

record supplier_result =
  sres_success :: bool
  sres_stats :: stats
  sres_error :: "pyerror option"

text \<open>The \<open>try\<close> of \<open>sync_supplier\<close> (lines 83 to 120).\<close>

definition supplier_run ::
  "env \<Rightarrow> supplier \<Rightarrow> bool \<Rightarrow> sync_log \<Rightarrow> db \<Rightarrow> pyerror + supplier_result \<times> db" where
  "supplier_run ev supplier to_woocommerce sync_log d =
     ebind (create_client ev supplier) (\<lambda>cl.
     ebind (sync_products (e_mapper ev) (e_fparse ev) (e_pystr ev) supplier (cl_get_products cl)
              (d, zero_stats)) (\<lambda>(products_result, s1).
       (let (stock_result, s2) =
              sync_stock (e_pystr ev) (e_iparse ev) supplier (e_now ev) (cl_get_stock cl) s1;
            (prices_result, s3) =
              sync_prices (e_pystr ev) (e_fparse ev) (e_iparse ev) supplier (cl_get_prices cl) s2;
            (d4, st4) = (if to_woocommerce then sync_to_woocommerce ev s3 else s3);
            sync_log' = sync_log\<lparr>sl_products_processed := products_processed st4,
                        sl_products_created := products_created st4,
                        sl_products_updated := products_updated st4,
                        sl_products_errors := products_errors st4\<rparr>
        in ebind (mark_completed_call sync_log' [''SUCCESS''] (e_now ev) d4) (\<lambda>d5.
             Inr (\<lparr>sres_success = True, sres_stats = st4, sres_error = None\<rparr>, d5)))))"

text \<open>
  \<open>sync_supplier\<close>.  The log is created with status \<open>RUNNING\<close> (lines 76 to 80).
  The handler (lines 122 to 142) records a \<open>SYSTEM_ERROR\<close> and calls
  \<open>sync_log.mark_completed('ERROR', error_msg)\<close>.  In this model the \<open>try\<close> raises only
  before the first write of the run, in the factory or in the product fetch, so the
  handler starts from the tables as they were when the log was created, and the
  statistics it stores with the error are those of a run that has counted nothing.
\<close>

definition new_sync_log :: "db \<Rightarrow> supplier \<Rightarrow> sync_log" where
  "new_sync_log d supplier =
     \<lparr>sl_id = next_id (map sl_id (db_sync_logs d)), sl_supplier = sup_id supplier,
      sl_sync_type = ''FULL'', sl_status = ''RUNNING'',
      sl_products_processed = 0, sl_products_created = 0,
      sl_products_updated = 0, sl_products_errors = 0, sl_completed_at = None\<rparr>"

definition sync_supplier :: "env \<Rightarrow> supplier \<Rightarrow> bool \<Rightarrow> db \<Rightarrow> (pyerror + supplier_result) \<times> db" where
  "sync_supplier ev supplier to_woocommerce d =
     (let sync_log = new_sync_log d supplier;
          d0 = d\<lparr>db_sync_logs := db_sync_logs d @ [sync_log]\<rparr>
      in case supplier_run ev supplier to_woocommerce sync_log d0 of
           Inr (result, d') \<Rightarrow> (Inr result, d')
         | Inl e \<Rightarrow>
             (let d1 = d0\<lparr>db_sync_errors := db_sync_errors d0 @
                          [\<lparr>se_supplier = sup_id supplier, se_error_type = ''SYSTEM_ERROR'',
                            se_severity = ''HIGH'', se_error = e, se_object_type = [],
                            se_object_id = [], se_context_data = ContextStats zero_stats\<rparr>]\<rparr>
              in case mark_completed_call sync_log [''ERROR'', ''Errore sincronizzazione''] (e_now ev) d1 of
                   Inl e' \<Rightarrow> (Inl e', d1)
                 | Inr d2 \<Rightarrow>
                     (Inr \<lparr>sres_success = False, sres_stats = zero_stats, sres_error = Some e\<rparr>, d2)))"

definition add_stats :: "stats \<Rightarrow> stats \<Rightarrow> stats" where
  "add_stats a b =
     \<lparr>products_processed = products_processed a + products_processed b,
      products_created = products_created a + products_created b,
      products_updated = products_updated a + products_updated b,
      products_errors = products_errors a + products_errors b,
      variants_processed = variants_processed a + variants_processed b,
      stock_updated = stock_updated a + stock_updated b,
      prices_updated = prices_updated a + prices_updated b,
      woo_synced = woo_synced a + woo_synced b\<rparr>"

text \<open>
  One turn of the loop of \<open>sync_all_suppliers\<close> (lines 47 to 58): an exception of
  \<open>sync_supplier\<close> is caught and entered in the results.
\<close>

type_synonym all_run = "(string \<times> supplier_result) list \<times> stats \<times> db"

definition sync_all_turn :: "env \<Rightarrow> bool \<Rightarrow> all_run \<Rightarrow> supplier \<Rightarrow> all_run" where
  "sync_all_turn ev to_woocommerce s supplier =
     (case s of (results, total_stats, d) \<Rightarrow>
        (case sync_supplier ev supplier to_woocommerce d of
           (Inr result, d') \<Rightarrow>
             (dict_set results (sup_name supplier) result,
              add_stats total_stats (sres_stats result), d')
         | (Inl e, d') \<Rightarrow>
             (dict_set results (sup_name supplier)
                \<lparr>sres_success = False, sres_stats = zero_stats, sres_error = Some e\<rparr>,
              total_stats, d')))"

text \<open>
  \<open>Supplier.objects.filter(is_active=True)\<close>: the model's \<open>Meta.ordering\<close> is
  \<open>['name']\<close>, so the rows come ordered by name.  Names are compared character by
  character by code; rows of the same name keep their table order.
\<close>

definition active_suppliers :: "db \<Rightarrow> supplier list" where
  "active_suppliers d = sort_key sup_name (filter sup_is_active (db_suppliers d))"

definition sync_all_suppliers :: "env \<Rightarrow> bool \<Rightarrow> db \<Rightarrow> all_run" where
  "sync_all_suppliers ev to_woocommerce d =
     foldl (sync_all_turn ev to_woocommerce) ([], zero_stats, d) (active_suppliers d)"

subsection \<open>Predicates used to state the properties\<close>

text \<open>
  A stock record resolves when its mapping succeeds and some variant of a product of the
  supplier carries the mapped SKU.
\<close>

definition sku_resolves ::
  "(pyval \<Rightarrow> string) \<Rightarrow> (string \<Rightarrow> int option) \<Rightarrow> db \<Rightarrow> supplier \<Rightarrow> pyval \<Rightarrow> bool" where
  "sku_resolves pystr iparse d supplier stock_data =
     (case map_stock_data iparse stock_data supplier of
        Inl e \<Rightarrow> False
      | Inr mapped_stock \<Rightarrow>
          list_ex (\<lambda>v. sku_matches pystr (dget mapped_stock ''sku'' PNone) v \<and> variant_of_supplier d supplier v)
            (db_variants d))"


section \<open>Example inputs\<close>


definition ex_supplier :: supplier where
  "ex_supplier = \<lparr>sup_id = 1, sup_name = ''Makito'', sup_code = ''MAK'',
                   sup_supplier_type = ''MAKITO'', sup_is_active = True, sup_last_sync = None\<rparr>"

definition ex_product :: product where
  "ex_product = \<lparr>p_id = 1, p_supplier = 1, p_supplier_ref = ''R1'', p_sku = ''MAK_R1'',
                  p_name = ''Bag'', p_base_price = None, p_currency = ''EUR''\<rparr>"

definition ex_variant :: product_variant where
  "ex_variant = \<lparr>pv_id = 1, pv_product = 1, pv_supplier_variant_ref = ''X1'', pv_sku = ''X1'',
                  pv_color = ''RED'', pv_color_code = ''RED'', pv_size = ''M'', pv_gtin = [],
                  pv_image = []\<rparr>"

definition ex_db :: db where
  "ex_db = \<lparr>db_suppliers = [ex_supplier], db_products = [ex_product],
             db_variants = [ex_variant], db_stocks = [], db_prices = [],
             db_sync_errors = [], db_sync_logs = []\<rparr>"

definition ex_stock :: "string \<Rightarrow> int \<Rightarrow> pyval" where
  "ex_stock sku qty =
     PDict [(''sku'', PStr sku), (''stock_quantity'', PInt qty), (''availability'', PStr ''available'')]"

definition ex_pystr :: "pyval \<Rightarrow> string" where
  "ex_pystr v = ''?''"

definition ex_mapper :: "pydict \<Rightarrow> supplier \<Rightarrow> pyerror + mapped_data" where
  "ex_mapper raw supplier =
     (case (map_of raw ''supplier_ref'', map_of raw ''name'') of
        (Some (PStr r), Some (PStr n)) \<Rightarrow>
          Inr \<lparr>md_supplier = Some (sup_id supplier), md_supplier_ref = Some r,
               md_sku = Some (''MAK_'' @ r), md_name = Some n, md_variants = Some [],
               md_prices = None\<rparr>
      | _ \<Rightarrow> Inl AttributeError)"

definition ex_run :: product_run where
  "ex_run = (ex_db, zero_stats, \<lparr>res_total = 0, res_created = 0, res_updated = 0, res_errors = 0\<rparr>)"

definition ex_bad_record :: pydict where
  "ex_bad_record = [(''supplier_ref'', PStr ''BAD'')]"

definition ex_good_record :: pydict where
  "ex_good_record = [(''supplier_ref'', PStr ''R2''), (''name'', PStr ''Cup'')]"

definition ex_element :: "string \<Rightarrow> element" where
  "ex_element ref =
     Element ''product'' [] None
       [Element ''ref'' [] (Some ref) [], Element ''name'' [] (Some ''Bag'') []]"

definition ex_catalog :: element where
  "ex_catalog = Element ''catalog'' [] None [ex_element ''1001'', ex_element ''1002'', ex_element ''1003'']"

definition ex_events :: "xml_event list" where
  "ex_events =
     [Start ex_catalog,
      Start (ex_element ''1001''), End (ex_element ''1001''),
      Start (ex_element ''1002''), End (ex_element ''1002''),
      Start (ex_element ''1003''), End (ex_element ''1003''),
      End ex_catalog]"

definition ex_csv_row :: "string \<Rightarrow> string \<Rightarrow> row" where
  "ex_csv_row code lang =
     [(''productCode'', Some code), (''language'', Some lang), (''active'', Some ''1''),
      (''name'', Some ''Penna''), (''description'', Some ''Penna a sfera'')]"

definition ex_midocean_response :: pyval where
  "ex_midocean_response =
     PDict [(''products'',
             PList [PDict [(''master_code'', PStr ''A'')],
                    PDict [(''master_code'', PStr ''B'')],
                    PDict [(''master_code'', PStr ''C'')]])]"



text \<open>A short CSV line: the columns after \<open>active\<close> are missing.\<close>

definition ex_partial_row :: row where
  "ex_partial_row =
     [(''productCode'', Some ''P1''), (''language'', Some ''it''), (''active'', Some ''1''),
      (''name'', None), (''description'', None)]"

definition ex_fparse :: "string \<Rightarrow> rat option" where
  "ex_fparse s = (if s = ''1.5'' then Some (3 / 2) else if s = ''100'' then Some 100 else None)"

definition ex_price_row :: row where
  "ex_price_row =
     [(''productCode'', Some ''P1''), (''language'', Some ''it''), (''active'', Some ''1''),
      (''name'', Some ''Penna''), (''description'', Some ''Penna a sfera''),
      (''minQty.1'', Some ''100''), (''maxQty.1'', Some []), (''price.1'', Some ''1,5'')]"

definition ex_midocean_price :: pyval where
  "ex_midocean_price =
     PDict [(''sku'', PStr ''X1''), (''price'', PFloat (5 / 2)),
            (''scale'', PList [PDict [(''minimum_quantity'', PInt 100), (''price'', PFloat 2)]])]"





text \<open>
  Two active suppliers: the first reads XML files, the second calls the REST API.  The
  stock file of the first is missing, so its product fetch returns one product and its
  stock fetch raises; the API of the second cannot be reached, so its product fetch
  raises.  By name the second comes first.
\<close>

definition ex_supplier2 :: supplier where
  "ex_supplier2 = \<lparr>sup_id = 2, sup_name = ''Alfa'', sup_code = ''ALF'',
                    sup_supplier_type = ''MIDOCEAN'', sup_is_active = True, sup_last_sync = None\<rparr>"

definition ex_db2 :: db where
  "ex_db2 = \<lparr>db_suppliers = [ex_supplier, ex_supplier2], db_products = [], db_variants = [],
              db_stocks = [], db_prices = [], db_sync_errors = [], db_sync_logs = []\<rparr>"

definition ex_env :: env where
  "ex_env =
     \<lparr>e_mapper = ex_mapper, e_fparse = ex_fparse, e_iparse = (\<lambda>s. None), e_pystr = ex_pystr,
      e_client = (\<lambda>s. if sup_id s = 1
                        then \<lparr>cl_get_products = Inr [ex_good_record], cl_get_stock = Inl APIError,
                              cl_get_prices = Inr []\<rparr>
                        else \<lparr>cl_get_products = Inl APIError,
                              cl_get_stock = Inr [], cl_get_prices = Inr []\<rparr>),
      e_woo = (\<lambda>ps. (ps, 0)), e_now = 7\<rparr>"

text \<open>
  The first supplier as an API supplier, and a price record of two tiers for the
  variant \<open>X1\<close>: the base price from one piece and a scale price from a hundred.
\<close>

definition ex_midocean_supplier :: supplier where
  "ex_midocean_supplier = ex_supplier\<lparr>sup_supplier_type := ''MIDOCEAN''\<rparr>"

text \<open>
  A record of the REST API, which carries its reference under \<open>master_code\<close> and has
  no \<open>supplier_ref\<close>; its \<open>variants\<close> entry holds a string where a dict is expected.
  The example mapper raises where \<open>_map_midocean_product\<close> does on such a record, at
  \<open>variant.get\<close> of a variant that is not a dict (\<open>data_mapper.py\<close>, line 118);
  otherwise it returns the reference and the SKU built from \<open>master_code\<close>, the name,
  and no variants.
\<close>

definition ex_midocean_record :: pydict where
  "ex_midocean_record =
     [(''master_code'', PStr ''M1''), (''product_name'', PStr ''Cup''), (''variants'', PList [PStr ''x''])]"

definition ex_midocean_good_record :: pydict where
  "ex_midocean_good_record = [(''master_code'', PStr ''M2''), (''product_name'', PStr ''Pen'')]"

definition ex_midocean_mapper :: "pydict \<Rightarrow> supplier \<Rightarrow> pyerror + mapped_data" where
  "ex_midocean_mapper raw supplier =
     (let variants = (case map_of raw ''variants'' of
                        None \<Rightarrow> []
                      | Some v \<Rightarrow> as_list v)
      in if list_all is_dict variants
         then Inr \<lparr>md_supplier = Some (sup_id supplier),
                   md_supplier_ref = Some (py_format ex_pystr (dget raw ''master_code'' (PStr []))),
                   md_sku = Some (''MID_'' @ py_format ex_pystr (dget raw ''master_code'' (PStr []))),
                   md_name = Some (py_format ex_pystr (dget raw ''product_name'' (PStr []))),
                   md_variants = Some [], md_prices = None\<rparr>
         else Inl AttributeError)"

section \<open>Verified properties\<close>

subsection \<open>Locale selection of the grouped-CSV client\<close>




subsection \<open>Stock synchronisation\<close>

lemma unresolved_record_skipped:
  assumes "\<not> sku_resolves pystr iparse d supplier stock_data"
  shows "sync_stock_record pystr iparse supplier now (d, st, n) stock_data = (d, st, n)"
proof (cases "map_stock_data iparse stock_data supplier")
  case (Inl e)
  then show ?thesis by (simp add: sync_stock_record_def stock_turn_def ebind_def)
next
  case (Inr m)
  with assms have "filter (\<lambda>v. sku_matches pystr (dget m ''sku'' PNone) v \<and> variant_of_supplier d supplier v)
            (db_variants d) = []"
    by (auto simp: sku_resolves_def list_ex_iff filter_empty_conv)
  then have "find_variant_by_sku pystr d (dget m ''sku'' PNone) supplier = Inr None"
    by (simp add: find_variant_by_sku_def)
  with Inr show ?thesis by (simp add: sync_stock_record_def stock_turn_def ebind_def)
qed

lemma stock_record_frame:
  "sync_stock_record pystr iparse supplier now (d, st, n) r = (d', st', n') \<Longrightarrow>
     db_variants d' = db_variants d \<and> db_products d' = db_products d"
  by (auto simp: sync_stock_record_def split: sum.splits option.splits)

lemma resolves_frame:
  "db_variants d' = db_variants d \<Longrightarrow> db_products d' = db_products d \<Longrightarrow>
   sku_resolves pystr iparse d' supplier r = sku_resolves pystr iparse d supplier r"
  by (simp add: sku_resolves_def variant_of_supplier_def split: sum.splits)

lemma stock_loop_frame:
  "foldl (sync_stock_record pystr iparse supplier now) (d, st, n) xs = (d', st', n') \<Longrightarrow>
     db_variants d' = db_variants d \<and> db_products d' = db_products d"
proof (induction xs arbitrary: d st n)
  case Nil
  then show ?case by simp
next
  case (Cons x xs)
  obtain d1 st1 n1 where s1: "sync_stock_record pystr iparse supplier now (d, st, n) x = (d1, st1, n1)"
    by (metis prod_cases3)
  from Cons.prems s1 have "foldl (sync_stock_record pystr iparse supplier now) (d1, st1, n1) xs = (d', st', n')"
    by simp
  from Cons.IH [OF this] stock_record_frame [OF s1] show ?case by simp
qed

text \<open>
  Claim C10.  A stock record whose SKU resolves to no variant of the supplier is skipped
  silently: the run over a feed that contains it ends in the same database (stock rows,
  sync errors and all other tables), the same statistics and the same \<open>updated\<close> count
  as the run over the feed without it; only \<open>total\<close>, the length of the feed, counts it.
\<close>

theorem stock_unresolved_sku_skipped:
  assumes "\<not> sku_resolves pystr iparse d supplier stock_data"
  shows "sync_stock pystr iparse supplier now (Inr (before @ stock_data # after)) (d, st) =
           (case sync_stock pystr iparse supplier now (Inr (before @ after)) (d, st) of
              (res, s') \<Rightarrow> (res\<lparr>sr_total := Suc (sr_total res)\<rparr>, s'))"
proof -
  let ?step = "sync_stock_record pystr iparse supplier now"
  obtain d1 st1 n1 where s1: "foldl ?step (d, st, 0) before = (d1, st1, n1)"
    by (metis prod_cases3)
  from stock_loop_frame [OF s1]
  have "sku_resolves pystr iparse d1 supplier stock_data = sku_resolves pystr iparse d supplier stock_data"
    by (intro resolves_frame) simp_all
  with assms have "\<not> sku_resolves pystr iparse d1 supplier stock_data"
    by blast
  then have skip: "?step (d1, st1, n1) stock_data = (d1, st1, n1)"
    by (rule unresolved_record_skipped)
  have "foldl ?step (d, st, 0) (before @ stock_data # after) =
          foldl ?step (?step (foldl ?step (d, st, 0) before) stock_data) after"
    by (simp only: foldl_append foldl_Cons)
  also have "\<dots> = foldl ?step (foldl ?step (d, st, 0) before) after"
    by (simp only: s1 skip)
  also have "\<dots> = foldl ?step (d, st, 0) (before @ after)"
    by (simp only: foldl_append)
  finally have "foldl ?step (d, st, 0) (before @ stock_data # after) = foldl ?step (d, st, 0) (before @ after)" .
  then show ?thesis
    by (simp add: sync_stock_def split: prod.splits)
qed

theorem stock_unresolved_sku_skipped_witness:
  "\<not> sku_resolves ex_pystr (\<lambda>s. None) ex_db ex_supplier (ex_stock ''Y9'' 3) \<and>
   sku_resolves ex_pystr (\<lambda>s. None) ex_db ex_supplier (ex_stock ''X1'' 5) \<and>
   sync_stock ex_pystr (\<lambda>s. None) ex_supplier 7 (Inr [ex_stock ''X1'' 5, ex_stock ''Y9'' 3]) (ex_db, zero_stats) =
     (\<lparr>sr_total = 2, sr_updated = 1, sr_error = None\<rparr>,
      ex_db\<lparr>db_stocks := [\<lparr>st_variant = 1, st_stock_quantity = PInt 5,
                            st_availability_status = PStr ''available'',
                            st_next_arrival_date = PNone, st_next_arrival_quantity = PNone,
                            st_supplier_updated_at = 7\<rparr>]\<rparr>,
      zero_stats\<lparr>stock_updated := 1\<rparr>)"
proof -
  have u: "\<not> sku_resolves ex_pystr (\<lambda>s. None) ex_db ex_supplier (ex_stock ''Y9'' 3)"
    by code_simp
  have r: "sku_resolves ex_pystr (\<lambda>s. None) ex_db ex_supplier (ex_stock ''X1'' 5)"
    by code_simp
  have one: "sync_stock ex_pystr (\<lambda>s. None) ex_supplier 7 (Inr ([ex_stock ''X1'' 5] @ [])) (ex_db, zero_stats) =
     (\<lparr>sr_total = 1, sr_updated = 1, sr_error = None\<rparr>,
      ex_db\<lparr>db_stocks := [\<lparr>st_variant = 1, st_stock_quantity = PInt 5,
                            st_availability_status = PStr ''available'',
                            st_next_arrival_date = PNone, st_next_arrival_quantity = PNone,
                            st_supplier_updated_at = 7\<rparr>]\<rparr>,
      zero_stats\<lparr>stock_updated := 1\<rparr>)"
    by code_simp
  from stock_unresolved_sku_skipped [OF u, of 7 "[ex_stock ''X1'' 5]" "[]" zero_stats] one u r
  show ?thesis by simp
qed

subsection \<open>Product synchronisation\<close>

lemma product_turn_fails:
  assumes "mapper raw_product supplier = Inl e \<or>
           (\<exists>mapped. mapper raw_product supplier = Inr mapped \<and>
                     create_or_update_product (db_products d) mapped = Inl e)"
  shows "product_turn mapper fparse pystr supplier raw_product (d, st, res) = Inl e"
  using assms by (auto simp: product_turn_def ebind_def)

text \<open>
  Claim C1.  When mapping a raw product record or writing its product row raises, one
  \<open>SyncError\<close> row is appended that records the record: its \<open>object_id\<close> is the
  record's \<open>supplier_ref\<close> entry (the empty string when the raw record has no such key,
  as a record of the REST API, whose reference is under \<open>master_code\<close>), and its
  \<open>context_data\<close> is the whole raw record, reference included.  The error counters go
  up by one, nothing else changes, and the loop goes on with the records that follow.
\<close>

theorem product_error_isolated:
  assumes "products_loop mapper fparse pystr supplier before s = (d, st, res)"
    and "mapper raw_product supplier = Inl e \<or>
         (\<exists>mapped. mapper raw_product supplier = Inr mapped \<and>
                   create_or_update_product (db_products d) mapped = Inl e)"
  shows "products_loop mapper fparse pystr supplier (before @ raw_product # after) s =
           products_loop mapper fparse pystr supplier after
             (d\<lparr>db_sync_errors := db_sync_errors d @
                  [\<lparr>se_supplier = sup_id supplier, se_error_type = ''PARSING_ERROR'',
                    se_severity = ''MEDIUM'', se_error = e, se_object_type = ''product'',
                    se_object_id = py_format pystr (dget raw_product ''supplier_ref'' (PStr [])),
                    se_context_data = ContextRecord raw_product\<rparr>]\<rparr>,
              st\<lparr>products_errors := Suc (products_errors st)\<rparr>,
              res\<lparr>res_errors := Suc (res_errors res)\<rparr>)"
proof -
  from assms(2) have "product_turn mapper fparse pystr supplier raw_product (d, st, res) = Inl e"
    by (rule product_turn_fails)
  then have "sync_one_product mapper fparse pystr supplier (d, st, res) raw_product =
               record_product_error pystr supplier raw_product e (d, st, res)"
    by (simp add: sync_one_product_def)
  with assms(1) show ?thesis
    by (simp add: products_loop_def record_product_error_def)
qed

theorem product_error_isolated_witness:
  "ex_mapper ex_bad_record ex_supplier = Inl AttributeError \<and>
   (case products_loop ex_mapper (\<lambda>s. None) ex_pystr ex_supplier [ex_bad_record, ex_good_record] ex_run of
      (d, st, res) \<Rightarrow>
        map se_object_id (db_sync_errors d) = [''BAD''] \<and>
        map se_context_data (db_sync_errors d) = [ContextRecord ex_bad_record] \<and>
        products_errors st = 1 \<and> products_processed st = 1 \<and> products_created st = 1 \<and>
        map p_supplier_ref (db_products d) = [''R1'', ''R2'']) \<and>
   map_of ex_midocean_record ''supplier_ref'' = None \<and>
   ex_midocean_mapper ex_midocean_record ex_midocean_supplier = Inl AttributeError \<and>
   (case products_loop ex_midocean_mapper (\<lambda>s. None) ex_pystr ex_midocean_supplier
           [ex_midocean_record, ex_midocean_good_record] ex_run of
      (d, st, res) \<Rightarrow>
        map se_object_id (db_sync_errors d) = [[]] \<and>
        map se_context_data (db_sync_errors d) = [ContextRecord ex_midocean_record] \<and>
        map_of ex_midocean_record ''master_code'' = Some (PStr ''M1'') \<and>
        products_errors st = 1 \<and> products_processed st = 1 \<and> products_created st = 1 \<and>
        map p_supplier_ref (db_products d) = [''R1'', ''M2''])"
proof -
  have b: "products_loop ex_mapper (\<lambda>s. None) ex_pystr ex_supplier [] ex_run =
             (ex_db, zero_stats, \<lparr>res_total = 0, res_created = 0, res_updated = 0, res_errors = 0\<rparr>)"
    by (simp add: products_loop_def ex_run_def)
  have f: "ex_mapper ex_bad_record ex_supplier = Inl AttributeError"
    by code_simp
  have r: "(case products_loop ex_mapper (\<lambda>s. None) ex_pystr ex_supplier [ex_good_record]
             (ex_db\<lparr>db_sync_errors := db_sync_errors ex_db @
                  [\<lparr>se_supplier = sup_id ex_supplier, se_error_type = ''PARSING_ERROR'',
                    se_severity = ''MEDIUM'', se_error = AttributeError, se_object_type = ''product'',
                    se_object_id = py_format ex_pystr (dget ex_bad_record ''supplier_ref'' (PStr [])),
                    se_context_data = ContextRecord ex_bad_record\<rparr>]\<rparr>,
              zero_stats\<lparr>products_errors := Suc (products_errors zero_stats)\<rparr>,
              \<lparr>res_total = 0, res_created = 0, res_updated = 0, res_errors = 0\<rparr>\<lparr>res_errors := Suc 0\<rparr>) of
      (d, st, res) \<Rightarrow>
        map se_object_id (db_sync_errors d) = [''BAD''] \<and>
        map se_context_data (db_sync_errors d) = [ContextRecord ex_bad_record] \<and>
        products_errors st = 1 \<and> products_processed st = 1 \<and> products_created st = 1 \<and>
        map p_supplier_ref (db_products d) = [''R1'', ''R2''])"
    by code_simp
  from product_error_isolated [OF b, of ex_bad_record AttributeError "[ex_good_record]"] f
  have "products_loop ex_mapper (\<lambda>s. None) ex_pystr ex_supplier ([] @ ex_bad_record # [ex_good_record]) ex_run =
         products_loop ex_mapper (\<lambda>s. None) ex_pystr ex_supplier [ex_good_record]
             (ex_db\<lparr>db_sync_errors := db_sync_errors ex_db @
                  [\<lparr>se_supplier = sup_id ex_supplier, se_error_type = ''PARSING_ERROR'',
                    se_severity = ''MEDIUM'', se_error = AttributeError, se_object_type = ''product'',
                    se_object_id = py_format ex_pystr (dget ex_bad_record ''supplier_ref'' (PStr [])),
                    se_context_data = ContextRecord ex_bad_record\<rparr>]\<rparr>,
              zero_stats\<lparr>products_errors := Suc (products_errors zero_stats)\<rparr>,
              \<lparr>res_total = 0, res_created = 0, res_updated = 0, res_errors = 0\<rparr>\<lparr>res_errors := Suc 0\<rparr>)"
    by simp
  with r have first: "(case products_loop ex_mapper (\<lambda>s. None) ex_pystr ex_supplier [ex_bad_record, ex_good_record] ex_run of
      (d, st, res) \<Rightarrow>
        map se_object_id (db_sync_errors d) = [''BAD''] \<and>
        map se_context_data (db_sync_errors d) = [ContextRecord ex_bad_record] \<and>
        products_errors st = 1 \<and> products_processed st = 1 \<and> products_created st = 1 \<and>
        map p_supplier_ref (db_products d) = [''R1'', ''R2''])"
    by simp
  have bm: "products_loop ex_midocean_mapper (\<lambda>s. None) ex_pystr ex_midocean_supplier [] ex_run =
             (ex_db, zero_stats, \<lparr>res_total = 0, res_created = 0, res_updated = 0, res_errors = 0\<rparr>)"
    by (simp add: products_loop_def ex_run_def)
  have k: "map_of ex_midocean_record ''supplier_ref'' = None"
    by code_simp
  have fm: "ex_midocean_mapper ex_midocean_record ex_midocean_supplier = Inl AttributeError"
    by code_simp
  have rm: "(case products_loop ex_midocean_mapper (\<lambda>s. None) ex_pystr ex_midocean_supplier [ex_midocean_good_record]
             (ex_db\<lparr>db_sync_errors := db_sync_errors ex_db @
                  [\<lparr>se_supplier = sup_id ex_midocean_supplier, se_error_type = ''PARSING_ERROR'',
                    se_severity = ''MEDIUM'', se_error = AttributeError, se_object_type = ''product'',
                    se_object_id = py_format ex_pystr (dget ex_midocean_record ''supplier_ref'' (PStr [])),
                    se_context_data = ContextRecord ex_midocean_record\<rparr>]\<rparr>,
              zero_stats\<lparr>products_errors := Suc (products_errors zero_stats)\<rparr>,
              \<lparr>res_total = 0, res_created = 0, res_updated = 0, res_errors = 0\<rparr>\<lparr>res_errors := Suc 0\<rparr>) of
      (d, st, res) \<Rightarrow>
        map se_object_id (db_sync_errors d) = [[]] \<and>
        map se_context_data (db_sync_errors d) = [ContextRecord ex_midocean_record] \<and>
        map_of ex_midocean_record ''master_code'' = Some (PStr ''M1'') \<and>
        products_errors st = 1 \<and> products_processed st = 1 \<and> products_created st = 1 \<and>
        map p_supplier_ref (db_products d) = [''R1'', ''M2''])"
    by code_simp
  from product_error_isolated [OF bm, of ex_midocean_record AttributeError "[ex_midocean_good_record]"] fm
  have "products_loop ex_midocean_mapper (\<lambda>s. None) ex_pystr ex_midocean_supplier
           ([] @ ex_midocean_record # [ex_midocean_good_record]) ex_run =
         products_loop ex_midocean_mapper (\<lambda>s. None) ex_pystr ex_midocean_supplier [ex_midocean_good_record]
             (ex_db\<lparr>db_sync_errors := db_sync_errors ex_db @
                  [\<lparr>se_supplier = sup_id ex_midocean_supplier, se_error_type = ''PARSING_ERROR'',
                    se_severity = ''MEDIUM'', se_error = AttributeError, se_object_type = ''product'',
                    se_object_id = py_format ex_pystr (dget ex_midocean_record ''supplier_ref'' (PStr [])),
                    se_context_data = ContextRecord ex_midocean_record\<rparr>]\<rparr>,
              zero_stats\<lparr>products_errors := Suc (products_errors zero_stats)\<rparr>,
              \<lparr>res_total = 0, res_created = 0, res_updated = 0, res_errors = 0\<rparr>\<lparr>res_errors := Suc 0\<rparr>)"
    by simp
  with rm have second: "(case products_loop ex_midocean_mapper (\<lambda>s. None) ex_pystr ex_midocean_supplier
           [ex_midocean_record, ex_midocean_good_record] ex_run of
      (d, st, res) \<Rightarrow>
        map se_object_id (db_sync_errors d) = [[]] \<and>
        map se_context_data (db_sync_errors d) = [ContextRecord ex_midocean_record] \<and>
        map_of ex_midocean_record ''master_code'' = Some (PStr ''M1'') \<and>
        products_errors st = 1 \<and> products_processed st = 1 \<and> products_created st = 1 \<and>
        map p_supplier_ref (db_products d) = [''R1'', ''M2''])"
    by simp
  from f first k fm second show ?thesis by blast
qed

subsection \<open>The \<open>limit\<close> of the product fetch\<close>

lemma length_dict_set: "length (dict_set kvs k v) \<le> Suc (length kvs)"
  by (induction kvs) auto

lemma group_rows_bound:
  assumes "0 < n" and "int (length acc) < n"
    and "group_rows (Some n) rows acc = Inr groups"
  shows "int (length groups) \<le> n"
  using assms(2,3)
proof (induction rows arbitrary: acc)
  case Nil
  then show ?case by simp
next
  case (Cons r rows)
  show ?case
  proof (cases "map_of r ''active'' \<noteq> Some (Some ''1'')")
    case True
    with Cons show ?thesis by simp
  next
    case False
    with Cons.prems(2) obtain product_code language where
      pc: "get_strip r ''productCode'' [] = Inr product_code" and
      lg: "get_strip r ''language'' [] = Inr language"
      by (auto simp: ebind_def split: sum.splits)
    show ?thesis
    proof (cases "product_code = []")
      case True
      with False pc lg Cons show ?thesis by (simp add: ebind_def)
    next
      case nonempty: False
      define acc' where "acc' = dict_set acc product_code
          (dict_set (case map_of acc product_code of None \<Rightarrow> [] | Some ls \<Rightarrow> ls) language r)"
      have "length acc' \<le> Suc (length acc)"
        unfolding acc'_def by (rule length_dict_set)
      then have len: "int (length acc') \<le> int (length acc) + 1"
        by linarith
      show ?thesis
      proof (cases "limit_reached (Some n) (length acc')")
        case True
        with False pc lg nonempty Cons.prems(2) have "groups = acc'"
          by (simp add: ebind_def acc'_def Let_def)
        with len Cons.prems(1) show ?thesis by simp
      next
        case notyet: False
        with False pc lg nonempty Cons.prems(2) have rec: "group_rows (Some n) rows acc' = Inr groups"
          by (simp add: ebind_def acc'_def Let_def)
        from notyet assms(1) have "int (length acc') < n"
          by (simp add: limit_reached_def)
        from Cons.IH [OF this rec] show ?thesis .
      qed
    qed
  qed
qed

lemma length_map_filter: "length (List.map_filter f xs) \<le> length xs"
  by (simp add: List.map_filter_def o_def)

lemma bic_limit:
  assumes "0 < n" and "bic_get_products fparse csv_file (Some n) = Inr ps"
  shows "int (length ps) \<le> n"
proof (cases csv_file)
  case None
  with assms show ?thesis by (auto simp: bic_get_products_def)
next
  case (Some rows)
  show ?thesis
  proof (cases "group_rows (Some n) rows []")
    case (Inl e)
    with Some assms show ?thesis by (auto simp: bic_get_products_def bic_parse_def ebind_def)
  next
    case (Inr groups)
    from group_rows_bound [OF assms(1) _ Inr] assms(1) have "int (length groups) \<le> n" by simp
    moreover have "length ps \<le> length groups"
      using Some Inr assms(2) by (auto simp: bic_get_products_def bic_parse_def ebind_def length_map_filter)
    ultimately show ?thesis by linarith
  qed
qed

lemma mkto_loop_bound:
  assumes "0 < n"
    and "int (length products) < n" and "count = length products"
    and "mkto_product_loop pystr (Some n) records err products count = Inr ps"
  shows "int (length ps) \<le> n"
  using assms(2-4)
proof (induction records arbitrary: products count)
  case Nil
  then show ?case by (simp split: option.splits)
next
  case (Cons r records)
  from Cons.prems(3) obtain p where p: "standardize_mkto_product pystr r = Inr p"
    by (auto split: sum.splits)
  show ?case
  proof (cases "limit_reached (Some n) (Suc count)")
    case True
    with p Cons.prems show ?thesis by auto
  next
    case False
    with p Cons.prems(3) have rec: "mkto_product_loop pystr (Some n) records err (products @ [p]) (Suc count) = Inr ps"
      by simp
    from False assms(1) Cons.prems(2) have "int (length (products @ [p])) < n"
      by (simp add: limit_reached_def)
    from Cons.IH [OF this _ rec] Cons.prems(2) show ?thesis by simp
  qed
qed

lemma length_slice: "0 < n \<Longrightarrow> int (length (py_slice_to n xs)) \<le> n"
  by (simp add: py_slice_to_def)

lemma mkto_limit:
  assumes "0 < n"
    and "mkto_get_products pystr cache_available cache xml_file (Some n) force_refresh = (Inr ps, cache')"
  shows "int (length ps) \<le> n"
proof -
  define cached_data where "cached_data = (if \<not> force_refresh \<and> cache_available
                         then (case cache of CacheUp (Some c) \<Rightarrow> c | _ \<Rightarrow> [])
                         else [])"
  show ?thesis
  proof (cases "cached_data = []")
    case False
    with assms have "ps = py_slice_to n cached_data"
      by (simp add: mkto_get_products_def cached_data_def Let_def)
    with assms(1) show ?thesis by (simp add: length_slice)
  next
    case True
    with assms(2) obtain events where ev: "xml_file = Some events"
      by (cases xml_file) (auto simp: mkto_get_products_def cached_data_def Let_def)
    obtain records err where pe: "parse_xml_iterative events ''product'' = (records, err)"
      by (cases "parse_xml_iterative events ''product''")
    from True ev pe assms(2) have "mkto_product_loop pystr (Some n) records err [] 0 = Inr ps"
      by (auto simp: mkto_get_products_def cached_data_def Let_def split: sum.splits)
    from mkto_loop_bound [OF assms(1) _ _ this] assms(1) show ?thesis by simp
  qed
qed

text \<open>
  Claim C3, as amended.  For a positive \<open>limit\<close> the streaming-XML client and the
  grouped-CSV client return at most that many products, from the cache or from a fresh
  parse.  The REST client and the whole-file XML client do not read \<open>limit\<close>: they
  return what they return without it.
\<close>

theorem limit_bounds_products:
  assumes "0 < n"
  shows "(\<forall>ps cache'. mkto_get_products pystr cache_available cache xml_file (Some n) force_refresh
             = (Inr ps, cache') \<longrightarrow> int (length ps) \<le> n) \<and>
         (\<forall>ps. bic_get_products fparse csv_file (Some n) = Inr ps \<longrightarrow> int (length ps) \<le> n) \<and>
         midocean_get_products mcache response (Some n) force_refresh =
           midocean_get_products mcache response None force_refresh \<and>
         makito_get_products kcache f (Some n) force_refresh =
           makito_get_products kcache f None force_refresh"
  using mkto_limit [OF assms] bic_limit [OF assms]
  by (auto simp: midocean_get_products_def makito_get_products_def)

lemma bic_get_products_returns: "\<exists>ps. bic_get_products fparse csv_file limit = Inr ps"
  by (auto simp: bic_get_products_def split: option.splits sum.splits)

theorem limit_bounds_products_witness:
  "(0::int) < 2 \<and>
   (\<exists>ps cache'. mkto_get_products ex_pystr True (CacheUp None) (Some ex_events) (Some 2) False = (Inr ps, cache') \<and>
      map mp_supplier_ref ps = [PStr ''1001'', PStr ''1002''] \<and> int (length ps) \<le> 2) \<and>
   (\<exists>ps. bic_get_products (\<lambda>s. None)
          (Some [ex_csv_row ''P1'' ''it'', ex_csv_row ''P1'' ''en'', ex_csv_row ''P2'' ''it'',
                 ex_csv_row ''P3'' ''it'']) (Some 2) = Inr ps \<and>
      map bp_supplier_ref ps = [''P1'', ''P2''] \<and> int (length ps) \<le> 2)"
proof -
  have pos: "(0::int) < 2" by simp
  have "fst (mkto_get_products ex_pystr True (CacheUp None) (Some ex_events) (Some 2) False) \<noteq> Inl APIError"
    by code_simp
  then obtain ps cache' where
    m: "mkto_get_products ex_pystr True (CacheUp None) (Some ex_events) (Some 2) False = (Inr ps, cache')"
    by (auto simp: mkto_get_products_def split: option.splits sum.splits prod.splits if_splits)
  have "map mp_supplier_ref (projr (fst (mkto_get_products ex_pystr True (CacheUp None) (Some ex_events) (Some 2) False)))
          = [PStr ''1001'', PStr ''1002'']"
    by code_simp
  with m have refs: "map mp_supplier_ref ps = [PStr ''1001'', PStr ''1002'']" by simp
  from limit_bounds_products [OF pos, of ex_pystr True "CacheUp None" "Some ex_events" False] m
  have mb: "int (length ps) \<le> 2" by blast
  obtain qs where b: "bic_get_products (\<lambda>s. None)
          (Some [ex_csv_row ''P1'' ''it'', ex_csv_row ''P1'' ''en'', ex_csv_row ''P2'' ''it'',
                 ex_csv_row ''P3'' ''it'']) (Some 2) = Inr qs"
    using bic_get_products_returns by blast
  have "map bp_supplier_ref (projr (bic_get_products (\<lambda>s. None)
          (Some [ex_csv_row ''P1'' ''it'', ex_csv_row ''P1'' ''en'', ex_csv_row ''P2'' ''it'',
                 ex_csv_row ''P3'' ''it'']) (Some 2))) = [''P1'', ''P2'']"
    by code_simp
  with b have brefs: "map bp_supplier_ref qs = [''P1'', ''P2'']" by simp
  from limit_bounds_products [OF pos] b have "int (length qs) \<le> 2" by blast
  with m refs mb b brefs show ?thesis by auto
qed

theorem limit_ignored_counterexample:
  "fst (midocean_get_products (CacheUp None) (Inr ex_midocean_response) (Some 1) False) =
     Inr (PList [PDict [(''master_code'', PStr ''A'')],
                 PDict [(''master_code'', PStr ''B'')],
                 PDict [(''master_code'', PStr ''C'')]])"
  by code_simp

subsection \<open>Malformed elements in the streaming-XML feed\<close>







subsection \<open>Missing file and partial rows of the grouped-CSV client\<close>

lemma dict_set_keys: "set (map fst (dict_set kvs k v)) = insert k (set (map fst kvs))"
proof (induction kvs)
  case Nil
  then show ?case by simp
next
  case (Cons kv kvs)
  obtain a b where kv: "kv = (a, b)" by (cases kv)
  show ?case
  proof (cases "a = k")
    case True
    with kv show ?thesis by auto
  next
    case False
    with kv Cons show ?thesis by auto
  qed
qed

lemma dict_set_distinct: "distinct (map fst kvs) \<Longrightarrow> distinct (map fst (dict_set kvs k v))"
proof (induction kvs)
  case Nil
  then show ?case by simp
next
  case (Cons kv kvs)
  then show ?case
    using dict_set_keys [of kvs k v] by (cases kv) auto
qed

lemma group_rows_distinct:
  "distinct (map fst acc) \<Longrightarrow> group_rows limit rows acc = Inr groups \<Longrightarrow> distinct (map fst groups)"
proof (induction rows arbitrary: acc)
  case Nil
  then show ?case by simp
next
  case (Cons r rows)
  show ?case
  proof (cases "map_of r ''active'' \<noteq> Some (Some ''1'')")
    case True
    with Cons show ?thesis by simp
  next
    case False
    with Cons.prems(2) obtain product_code language where
      pc: "get_strip r ''productCode'' [] = Inr product_code" and
      lg: "get_strip r ''language'' [] = Inr language"
      by (auto simp: ebind_def split: sum.splits)
    show ?thesis
    proof (cases "product_code = []")
      case True
      with False pc lg Cons show ?thesis by (simp add: ebind_def)
    next
      case nonempty: False
      define acc' where "acc' = dict_set acc product_code
          (dict_set (case map_of acc product_code of None \<Rightarrow> [] | Some ls \<Rightarrow> ls) language r)"
      from Cons.prems(1) have d: "distinct (map fst acc')"
        unfolding acc'_def by (rule dict_set_distinct)
      show ?thesis
      proof (cases "limit_reached limit (length acc')")
        case True
        with False pc lg nonempty Cons.prems(2) have "groups = acc'"
          by (simp add: ebind_def acc'_def Let_def)
        with d show ?thesis by simp
      next
        case notyet: False
        with False pc lg nonempty Cons.prems(2) have "group_rows limit rows acc' = Inr groups"
          by (simp add: ebind_def acc'_def Let_def)
        from Cons.IH [OF d this] show ?thesis .
      qed
    qed
  qed
qed

lemma standardize_supplier_ref:
  "standardize_bic_product_data fparse preferred code langs = Some p \<Longrightarrow> bp_supplier_ref p = code"
  by (auto simp: standardize_bic_product_data_def build_product_def ebind_def
           split: sum.splits if_splits)

text \<open>
  Claim C8, as amended.  When the CSV file does not exist the product fetch returns the
  empty list as a successful result, and it raises on no input.  When the row loop ends
  normally, a product whose selected row cannot be standardized is left out of the result
  and a product that can be standardized is in it.
\<close>

theorem bic_missing_file_returns_empty:
  assumes "group_rows limit rows [] = Inr groups" and "(code, langs) \<in> set groups"
  shows "bic_get_products fparse None any_limit = Inr [] \<and>
         (\<exists>ps. bic_get_products fparse csv_file any_limit = Inr ps) \<and>
         (\<exists>ps. bic_get_products fparse (Some rows) limit = Inr ps \<and>
            (case standardize_bic_product_data fparse bic_preferred_language code langs of
               Some p \<Rightarrow> p \<in> set ps
             | None \<Rightarrow> code \<notin> bp_supplier_ref ` set ps))"
proof -
  let ?std = "\<lambda>(c, ls). standardize_bic_product_data fparse bic_preferred_language c ls"
  have res: "bic_get_products fparse (Some rows) limit = Inr (List.map_filter ?std groups)"
    using assms(1) by (simp add: bic_get_products_def bic_parse_def ebind_def)
  have d: "distinct (map fst groups)"
    using group_rows_distinct [OF _ assms(1)] by simp
  have "case standardize_bic_product_data fparse bic_preferred_language code langs of
               Some p \<Rightarrow> p \<in> set (List.map_filter ?std groups)
             | None \<Rightarrow> code \<notin> bp_supplier_ref ` set (List.map_filter ?std groups)"
  proof (cases "standardize_bic_product_data fparse bic_preferred_language code langs")
    case (Some p)
    with assms(2) show ?thesis
      by (force simp: List.map_filter_def)
  next
    case None
    have "code \<notin> bp_supplier_ref ` set (List.map_filter ?std groups)"
    proof
      assume "code \<in> bp_supplier_ref ` set (List.map_filter ?std groups)"
      then obtain c ls p where in_g: "(c, ls) \<in> set groups"
        and sp: "standardize_bic_product_data fparse bic_preferred_language c ls = Some p"
        and ref: "bp_supplier_ref p = code"
        by (auto simp: List.map_filter_def)
      from standardize_supplier_ref [OF sp] ref have "c = code" by simp
      with d in_g assms(2) have "ls = langs"
        by (metis eq_key_imp_eq_value)
      with sp \<open>c = code\<close> None show False by simp
    qed
    with None show ?thesis by simp
  qed
  with res show ?thesis
    by (auto simp: bic_get_products_def split: sum.splits option.splits)
qed

theorem bic_missing_file_returns_empty_witness:
  "group_rows None [ex_partial_row, ex_csv_row ''P2'' ''it''] [] =
     Inr [(''P1'', [(''it'', ex_partial_row)]), (''P2'', [(''it'', ex_csv_row ''P2'' ''it'')])] \<and>
   bic_get_products (\<lambda>s. None) None None = Inr [] \<and>
   (\<exists>ps. bic_get_products (\<lambda>s. None) (Some [ex_partial_row, ex_csv_row ''P2'' ''it'']) None = Inr ps \<and>
      ''P1'' \<notin> bp_supplier_ref ` set ps \<and> ''P2'' \<in> bp_supplier_ref ` set ps)"
proof -
  let ?rows = "[ex_partial_row, ex_csv_row ''P2'' ''it'']"
  let ?groups = "[(''P1'', [(''it'', ex_partial_row)]), (''P2'', [(''it'', ex_csv_row ''P2'' ''it'')])]"
  have g: "group_rows None ?rows [] = Inr ?groups"
    by code_simp
  have m1: "(''P1'', [(''it'', ex_partial_row)]) \<in> set ?groups" by simp
  have m2: "(''P2'', [(''it'', ex_csv_row ''P2'' ''it'')]) \<in> set ?groups" by simp
  have s1: "standardize_bic_product_data (\<lambda>s. None) bic_preferred_language ''P1'' [(''it'', ex_partial_row)] = None"
    by code_simp
  have "standardize_bic_product_data (\<lambda>s. None) bic_preferred_language ''P2''
          [(''it'', ex_csv_row ''P2'' ''it'')] \<noteq> None"
    by code_simp
  then obtain p where s2: "standardize_bic_product_data (\<lambda>s. None) bic_preferred_language ''P2''
          [(''it'', ex_csv_row ''P2'' ''it'')] = Some p"
    by blast
  have "bp_supplier_ref (the (standardize_bic_product_data (\<lambda>s. None) bic_preferred_language ''P2''
          [(''it'', ex_csv_row ''P2'' ''it'')])) = ''P2''"
    by code_simp
  with s2 have ref: "bp_supplier_ref p = ''P2''" by simp
  from bic_missing_file_returns_empty [OF g m1, of "\<lambda>s. None" None None] s1
  obtain ps where r: "bic_get_products (\<lambda>s. None) (Some ?rows) None = Inr ps"
    and out: "''P1'' \<notin> bp_supplier_ref ` set ps" and e: "bic_get_products (\<lambda>s. None) None None = Inr []"
    by auto
  from bic_missing_file_returns_empty [OF g m2, of "\<lambda>s. None" None None] s2 r
  have "p \<in> set ps" by auto
  with ref have "''P2'' \<in> bp_supplier_ref ` set ps" by force
  with g e r out show ?thesis by blast
qed
theorem bic_missing_file_counterexample:
  "bic_get_products (\<lambda>s. None) None None = Inr []"
  by (simp add: bic_get_products_def)


subsection \<open>The maximum quantity of a price tier\<close>

lemma price_at_max_quantity:
  "t \<in> set (price_at fparse data cur i) \<Longrightarrow>
     (\<exists>m. max_quantity t = Some m \<and> m \<noteq> 0) \<and>
     (safe_int fparse (row_get data (''maxQty.'' @ str_nat i) []) \<in> {None, Some 0}
        \<longrightarrow> max_quantity t = Some 999999)"
  by (auto simp: price_at_def Let_def split: option.splits if_splits)

lemma extract_prices_max:
  assumes "extract_prices fparse data = Inr tiers" and "t \<in> set tiers"
  shows "\<exists>m. max_quantity t = Some m \<and> m \<noteq> 0"
proof -
  from assms obtain cur i where "t \<in> set (price_at fparse data cur i)"
    by (auto simp: extract_prices_def split: sum.splits)
  then show ?thesis using price_at_max_quantity by blast
qed

lemma emap_set:
  "emap f xs = Inr ys \<Longrightarrow> y \<in> set ys \<Longrightarrow> \<exists>x \<in> set xs. f x = Inr y"
proof (induction xs arbitrary: ys)
  case Nil
  then show ?case by simp
next
  case (Cons x xs)
  then show ?case by (auto split: sum.splits)
qed

lemma collect_set:
  "collect rs = Inr ys \<Longrightarrow> y \<in> set ys \<Longrightarrow> \<exists>xs. Inr xs \<in> set rs \<and> y \<in> set xs"
proof (induction rs arbitrary: ys)
  case Nil
  then show ?case by simp
next
  case (Cons r rs)
  show ?case
  proof (cases r)
    case (Inl e)
    with Cons.prems show ?thesis by simp
  next
    case (Inr xs)
    with Cons.prems obtain zs where zs: "collect rs = Inr zs" and ys: "ys = xs @ zs"
      by (auto split: sum.splits)
    show ?thesis
    proof (cases "y \<in> set xs")
      case True
      with Inr show ?thesis by auto
    next
      case False
      with ys Cons.prems(2) have "y \<in> set zs" by simp
      from Cons.IH [OF zs this] show ?thesis by auto
    qed
  qed
qed

lemma bic_price_entry_max:
  assumes "bic_price_entry supplier supplier_ref sku (tier_dict t) = Inr mp"
  shows "map_of mp ''max_quantity'' =
           Some (case max_quantity t of None \<Rightarrow> PNone | Some m \<Rightarrow> PInt m)"
  using assms by (auto simp: bic_price_entry_def tier_dict_def ebind_def)

lemma midocean_scale_max:
  "midocean_scale_price fparse iparse sku valid_until scale = Inr mp \<Longrightarrow>
     map_of mp ''max_quantity'' = Some PNone"
  by (auto simp: midocean_scale_price_def ebind_def split: sum.splits)

lemma midocean_max:
  assumes "map_midocean_prices fparse iparse raw = Inr prices" and "mp \<in> set prices"
  shows "map_of mp ''max_quantity'' = Some PNone"
proof -
  from assms(1) obtain raw_data where raw: "raw = PDict raw_data"
    by (cases raw) (auto simp: map_midocean_prices_def)
  from assms(1) raw obtain base_price where
    bp: "py_float fparse (dget raw_data ''price'' (PInt 0)) = Inr base_price"
    by (auto simp: map_midocean_prices_def ebind_def Let_def split: sum.splits)
  let ?base = "[(''sku'', dget raw_data ''sku'' (PStr [])), (''price'', PFloat base_price),
                (''min_quantity'', PInt 1), (''max_quantity'', PNone), (''currency'', PStr ''EUR''),
                (''valid_until'', dget raw_data ''valid_until'' PNone)]"
  let ?f = "midocean_scale_price fparse iparse (dget raw_data ''sku'' (PStr []))
             (dget raw_data ''valid_until'' PNone)"
  show ?thesis
  proof (cases "map_of raw_data ''scale''")
    case None
    with assms(1) raw bp have "prices = [?base]"
      by (simp add: map_midocean_prices_def ebind_def Let_def)
    with assms(2) show ?thesis by simp
  next
    case (Some sc)
    with assms(1) raw bp obtain scales scaled where
      e: "emap ?f scales = Inr scaled" and p: "prices = ?base # scaled"
      by (auto simp: map_midocean_prices_def ebind_def Let_def split: sum.splits)
    show ?thesis
    proof (cases "mp \<in> set scaled")
      case True
      from emap_set [OF e True] midocean_scale_max show ?thesis by blast
    next
      case False
      with p assms(2) have "mp = ?base" by simp
      then show ?thesis by simp
    qed
  qed
qed

lemma makito_max:
  assumes "map_makito_prices raw = Inr prices" and "mp \<in> set prices"
  shows "map_of mp ''max_quantity'' = Some PNone"
proof -
  from assms(1) obtain supplier_ref rs where
    c: "collect (map (makito_price_range supplier_ref) rs) = Inr prices"
    by (auto simp: map_makito_prices_def ebind_def split: sum.splits)
  from collect_set [OF c assms(2)] obtain xs where
    m: "Inr xs \<in> set (map (makito_price_range supplier_ref) rs)" and x: "mp \<in> set xs"
    by blast
  from m obtain r where "makito_price_range supplier_ref r = Inr xs"
    by (metis (no_types, lifting) imageE list.set_map)
  with x show ?thesis
    by (auto simp: makito_price_range_def ebind_def split: sum.splits if_splits)
qed

lemma bic_mapped_max:
  assumes "extract_prices fparse data = Inr tiers"
    and "map_of raw_data ''prices'' = Some (PList (map tier_dict tiers))"
    and "mp \<in> set (map_bic_prices supplier (PDict raw_data))"
  shows "\<exists>m. map_of mp ''max_quantity'' = Some (PInt m) \<and> m \<noteq> 0"
proof -
  define supplier_ref where "supplier_ref = dget raw_data ''supplier_ref'' (PStr [])"
  define sku where "sku = dget raw_data ''sku'' (PStr [])"
  let ?e = "emap (bic_price_entry supplier supplier_ref sku) (map tier_dict tiers)"
  have mb: "map_bic_prices supplier (PDict raw_data) = (case ?e of Inl e \<Rightarrow> [] | Inr ps \<Rightarrow> ps)"
    using assms(2) by (simp add: map_bic_prices_def ebind_def dget_def supplier_ref_def sku_def)
  from mb assms(3) obtain prices where e: "?e = Inr prices" and m: "mp \<in> set prices"
    by (cases ?e) auto
  from emap_set [OF e m] obtain t where t: "t \<in> set tiers"
    and b: "bic_price_entry supplier supplier_ref sku (tier_dict t) = Inr mp"
    by auto
  from extract_prices_max [OF assms(1) t] obtain mx where "max_quantity t = Some mx" and "mx \<noteq> 0"
    by blast
  with bic_price_entry_max [OF b] show ?thesis by simp
qed

text \<open>
  Claim C9, as amended.  A tier of the grouped-CSV client always has an integer maximum
  quantity, which is the sentinel 999999 when the source column is empty, unreadable or
  zero, and the BIC price mapping hands that integer on.  The Midocean and Makito price
  mappings set the maximum quantity of every tier to \<open>None\<close>.
\<close>

theorem max_quantity_normalization:
  "(extract_prices fparse data = Inr tiers \<and> t \<in> set tiers \<longrightarrow>
      (\<exists>m. max_quantity t = Some m \<and> m \<noteq> 0)) \<and>
   (t' \<in> set (price_at fparse data cur i) \<and>
    safe_int fparse (row_get data (''maxQty.'' @ str_nat i) []) \<in> {None, Some 0} \<longrightarrow>
      max_quantity t' = Some 999999) \<and>
   (extract_prices fparse data = Inr tiers \<and>
    map_of raw_data ''prices'' = Some (PList (map tier_dict tiers)) \<and>
    mp \<in> set (map_bic_prices supplier (PDict raw_data)) \<longrightarrow>
      (\<exists>m. map_of mp ''max_quantity'' = Some (PInt m) \<and> m \<noteq> 0)) \<and>
   (map_midocean_prices fparse iparse raw = Inr prices \<and> mp' \<in> set prices \<longrightarrow>
      map_of mp' ''max_quantity'' = Some PNone) \<and>
   (map_makito_prices raw' = Inr prices' \<and> mp'' \<in> set prices' \<longrightarrow>
      map_of mp'' ''max_quantity'' = Some PNone)"
proof (intro conjI impI)
  assume "extract_prices fparse data = Inr tiers \<and> t \<in> set tiers"
  then show "\<exists>m. max_quantity t = Some m \<and> m \<noteq> 0"
    using extract_prices_max by blast
next
  assume "t' \<in> set (price_at fparse data cur i) \<and>
    safe_int fparse (row_get data (''maxQty.'' @ str_nat i) []) \<in> {None, Some 0}"
  then show "max_quantity t' = Some 999999"
    using price_at_max_quantity by blast
next
  assume "extract_prices fparse data = Inr tiers \<and>
    map_of raw_data ''prices'' = Some (PList (map tier_dict tiers)) \<and>
    mp \<in> set (map_bic_prices supplier (PDict raw_data))"
  then show "\<exists>m. map_of mp ''max_quantity'' = Some (PInt m) \<and> m \<noteq> 0"
    using bic_mapped_max by blast
next
  assume "map_midocean_prices fparse iparse raw = Inr prices \<and> mp' \<in> set prices"
  then show "map_of mp' ''max_quantity'' = Some PNone"
    using midocean_max by blast
next
  assume "map_makito_prices raw' = Inr prices' \<and> mp'' \<in> set prices'"
  then show "map_of mp'' ''max_quantity'' = Some PNone"
    using makito_max by blast
qed

theorem max_quantity_normalization_witness:
  "extract_prices ex_fparse ex_price_row =
     Inr [\<lparr>min_quantity = 100, max_quantity = Some 999999, price = 3 / 2, currency = ''EUR''\<rparr>] \<and>
   safe_int ex_fparse (row_get ex_price_row (''maxQty.'' @ str_nat 1) []) \<in> {None, Some 0} \<and>
   (\<exists>m. max_quantity \<lparr>min_quantity = 100, max_quantity = Some 999999, price = 3 / 2, currency = ''EUR''\<rparr>
          = Some m \<and> m \<noteq> 0) \<and>
   map_midocean_prices ex_fparse (\<lambda>s. None) ex_midocean_price =
     Inr [[(''sku'', PStr ''X1''), (''price'', PFloat (5 / 2)), (''min_quantity'', PInt 1),
           (''max_quantity'', PNone), (''currency'', PStr ''EUR''), (''valid_until'', PNone)],
          [(''sku'', PStr ''X1''), (''price'', PFloat 2), (''min_quantity'', PInt 100),
           (''max_quantity'', PNone), (''currency'', PStr ''EUR''), (''valid_until'', PNone)]] \<and>
   map_of [(''sku'', PStr ''X1''), (''price'', PFloat 2), (''min_quantity'', PInt 100),
           (''max_quantity'', PNone), (''currency'', PStr ''EUR''), (''valid_until'', PNone)]
      ''max_quantity'' = Some PNone"
proof -
  let ?t = "\<lparr>min_quantity = 100, max_quantity = Some 999999, price = 3 / 2, currency = ''EUR''\<rparr>"
  let ?a = "[(''sku'', PStr ''X1''), (''price'', PFloat (5 / 2)), (''min_quantity'', PInt 1),
           (''max_quantity'', PNone), (''currency'', PStr ''EUR''), (''valid_until'', PNone)]"
  let ?b = "[(''sku'', PStr ''X1''), (''price'', PFloat 2), (''min_quantity'', PInt 100),
           (''max_quantity'', PNone), (''currency'', PStr ''EUR''), (''valid_until'', PNone)]"
  have e: "extract_prices ex_fparse ex_price_row = Inr [?t]"
    by code_simp
  have u: "safe_int ex_fparse (row_get ex_price_row (''maxQty.'' @ str_nat 1) []) = None"
    by code_simp
  have m: "map_midocean_prices ex_fparse (\<lambda>s. None) ex_midocean_price = Inr [?a, ?b]"
    by code_simp
  from max_quantity_normalization [where fparse = ex_fparse and data = ex_price_row and tiers = "[?t]" and t = ?t
         and iparse = "\<lambda>s. None" and raw = ex_midocean_price and prices = "[?a, ?b]" and mp' = ?b] e m
  have "(\<exists>m. max_quantity ?t = Some m \<and> m \<noteq> 0) \<and> map_of ?b ''max_quantity'' = Some PNone"
    by simp
  with e u m show ?thesis by simp
qed

theorem max_quantity_null_counterexample:
  "map (\<lambda>mp. map_of mp ''max_quantity'') (projr (map_midocean_prices ex_fparse (\<lambda>s. None) ex_midocean_price)) =
     [Some PNone, Some PNone]"
  by code_simp

subsection \<open>Variant SKUs\<close>




lemma next_id_fresh: "i \<in> set ids \<Longrightarrow> i < next_id ids"
  by (induction ids) (auto simp: next_id_def)









subsection \<open>Failures of a fetch in a supplier run\<close>

lemma foldl_frame: "(\<And>s x. g (f s x) = g s) \<Longrightarrow> g (foldl f s xs) = g s"
  by (induction xs arbitrary: s) simp_all

lemma variants_logs: "db_sync_logs (fst (sync_product_variants product vds s)) = db_sync_logs (fst s)"
  unfolding sync_product_variants_def
  by (rule foldl_frame [where g = "\<lambda>s. db_sync_logs (fst s)"])
     (auto simp: sync_one_variant_def Let_def split: sum.splits prod.splits)

lemma product_turn_logs:
  assumes "product_turn mapper fparse pystr supplier raw s = Inr s'"
  shows "db_sync_logs (fst s') = db_sync_logs (fst s)"
proof -
  obtain d st res where s: "s = (d, st, res)" by (cases s)
  from assms s obtain mapped ps product created where
    m: "mapper raw supplier = Inr mapped" and
    c: "create_or_update_product (db_products d) mapped = Inr (ps, product, created)"
    by (auto simp: product_turn_def ebind_def split: sum.splits)
  define st1 where "st1 = (if created then st\<lparr>products_created := Suc (products_created st)\<rparr>
                      else st\<lparr>products_updated := Suc (products_updated st)\<rparr>)"
  define s2 where "s2 = sync_product_variants product
            (case md_variants mapped of None \<Rightarrow> [] | Some vs \<Rightarrow> vs) (d\<lparr>db_products := ps\<rparr>, st1)"
  from assms s m c have "fst s' = process_product_enhancements fparse pystr product mapped (fst s2)"
    by (auto simp: product_turn_def ebind_def Let_def s2_def st1_def split: prod.splits)
  moreover have "db_sync_logs (fst s2) = db_sync_logs d"
    unfolding s2_def by (simp add: variants_logs)
  ultimately show ?thesis
    using s by (simp add: process_product_enhancements_def Let_def)
qed

lemma sync_one_product_logs:
  "db_sync_logs (fst (sync_one_product mapper fparse pystr supplier s raw)) = db_sync_logs (fst s)"
proof (cases "product_turn mapper fparse pystr supplier raw s")
  case (Inl e)
  then show ?thesis
    by (cases s) (simp add: sync_one_product_def record_product_error_def)
next
  case (Inr s')
  with product_turn_logs [OF Inr] show ?thesis by (simp add: sync_one_product_def)
qed

lemma sync_products_logs:
  assumes "sync_products mapper fparse pystr supplier fetched s = Inr (res, s')"
  shows "db_sync_logs (fst s') = db_sync_logs (fst s)"
proof -
  from assms obtain raws where f: "fetched = Inr raws"
    by (cases fetched) (auto simp: sync_products_def)
  let ?s0 = "(fst s, snd s, \<lparr>res_total = 0, res_created = 0, res_updated = 0, res_errors = 0\<rparr>)"
  have "db_sync_logs (fst (products_loop mapper fparse pystr supplier raws ?s0)) = db_sync_logs (fst ?s0)"
    unfolding products_loop_def
    by (rule foldl_frame [where g = "\<lambda>s. db_sync_logs (fst s)"]) (rule sync_one_product_logs)
  with assms f show ?thesis
    by (auto simp: sync_products_def split: prod.splits)
qed

lemma sync_stock_logs:
  "db_sync_logs (fst (snd (sync_stock pystr iparse supplier now fetched s))) = db_sync_logs (fst s)"
proof (cases fetched)
  case (Inl e)
  then show ?thesis by (simp add: sync_stock_def)
next
  case (Inr raws)
  have "db_sync_logs (fst (foldl (sync_stock_record pystr iparse supplier now) (fst s, snd s, 0) raws))
          = db_sync_logs (fst (fst s, snd s, 0::nat))"
    by (rule foldl_frame [where g = "\<lambda>s. db_sync_logs (fst s)"])
       (auto simp: sync_stock_record_def split: sum.splits option.splits prod.splits)
  with Inr show ?thesis by (auto simp: sync_stock_def split: prod.splits)
qed

lemma apply_prices_logs:
  "db_sync_logs (fst (apply_prices pystr supplier mps s)) = db_sync_logs (fst s)"
proof (induction mps arbitrary: s)
  case Nil
  then show ?case by simp
next
  case (Cons mp mps)
  show ?case
  proof (cases "apply_price pystr supplier mp s")
    case (Inl e)
    then show ?thesis by simp
  next
    case (Inr s')
    then have "db_sync_logs (fst s') = db_sync_logs (fst s)"
      by (cases s) (auto simp: apply_price_def ebind_def split: sum.splits option.splits)
    with Inr Cons.IH [of s'] show ?thesis by simp
  qed
qed

lemma sync_prices_logs:
  "db_sync_logs (fst (snd (sync_prices pystr fparse iparse supplier fetched s))) = db_sync_logs (fst s)"
proof (cases fetched)
  case (Inl e)
  then show ?thesis by (simp add: sync_prices_def)
next
  case (Inr raws)
  have "db_sync_logs (fst (foldl (sync_price_record pystr fparse iparse supplier) (fst s, snd s, 0) raws))
          = db_sync_logs (fst (fst s, snd s, 0::nat))"
    by (rule foldl_frame [where g = "\<lambda>s. db_sync_logs (fst s)"])
       (auto simp: sync_price_record_def apply_prices_logs split: sum.splits)
  with Inr show ?thesis by (auto simp: sync_prices_def split: prod.splits)
qed

lemma create_client_ok:
  assumes "sup_is_active supplier"
    and "sup_supplier_type supplier \<in> {''MIDOCEAN'', ''MAKITO'', ''BIC''}"
  shows "create_client ev supplier = Inr (e_client ev supplier)"
  using assms by (auto simp: create_client_def)

lemma supplier_run_Inr:
  assumes "supplier_run ev supplier w sync_log d0 = Inr (result, d')"
  shows "\<exists>d4 sync_log'. db_sync_logs d4 = db_sync_logs d0 \<and> sl_id sync_log' = sl_id sync_log \<and>
           sl_supplier sync_log' = sl_supplier sync_log \<and>
           d' = mark_completed sync_log' ''SUCCESS'' (e_now ev) d4 \<and> sres_success result"
proof -
  from assms obtain cl where cl: "create_client ev supplier = Inr cl"
    by (auto simp: supplier_run_def ebind_def split: sum.splits)
  from assms cl obtain products_result s1 where
    p: "sync_products (e_mapper ev) (e_fparse ev) (e_pystr ev) supplier (cl_get_products cl)
          (d0, zero_stats) = Inr (products_result, s1)"
    by (auto simp: supplier_run_def ebind_def split: sum.splits)
  define s2 where "s2 = snd (sync_stock (e_pystr ev) (e_iparse ev) supplier (e_now ev) (cl_get_stock cl) s1)"
  define s3 where "s3 = snd (sync_prices (e_pystr ev) (e_fparse ev) (e_iparse ev) supplier (cl_get_prices cl) s2)"
  define s4 where "s4 = (if w then sync_to_woocommerce ev s3 else s3)"
  define sync_log' where "sync_log' = sync_log\<lparr>sl_products_processed := products_processed (snd s4),
                        sl_products_created := products_created (snd s4),
                        sl_products_updated := products_updated (snd s4),
                        sl_products_errors := products_errors (snd s4)\<rparr>"
  have l1: "db_sync_logs (fst s1) = db_sync_logs d0"
    using sync_products_logs [OF p] by simp
  have l2: "db_sync_logs (fst s2) = db_sync_logs (fst s1)"
    unfolding s2_def by (rule sync_stock_logs)
  have l3: "db_sync_logs (fst s3) = db_sync_logs (fst s2)"
    unfolding s3_def by (rule sync_prices_logs)
  have l4: "db_sync_logs (fst s4) = db_sync_logs (fst s3)"
    unfolding s4_def by (simp add: sync_to_woocommerce_def split: prod.splits)
  from assms cl p have "d' = mark_completed sync_log' ''SUCCESS'' (e_now ev) (fst s4) \<and> sres_success result"
    by (auto simp: supplier_run_def ebind_def Let_def mark_completed_call_def
                   s2_def s3_def s4_def sync_log'_def split: prod.splits)
  moreover have "sl_id sync_log' = sl_id sync_log \<and> sl_supplier sync_log' = sl_supplier sync_log"
    by (simp add: sync_log'_def)
  ultimately show ?thesis using l1 l2 l3 l4 by metis
qed

lemma supplier_run_returns:
  assumes "create_client ev supplier = Inr cl" and "cl_get_products cl = Inr raws"
  shows "\<exists>result d'. supplier_run ev supplier w sync_log d0 = Inr (result, d')"
  using assms
  by (auto simp: supplier_run_def ebind_def Let_def sync_products_def mark_completed_call_def
           split: prod.splits)


lemma sync_supplier_product_fetch_raises:
  assumes "sup_is_active supplier"
    and "sup_supplier_type supplier \<in> {''MIDOCEAN'', ''MAKITO'', ''BIC''}"
    and "cl_get_products (e_client ev supplier) = Inl e"
  shows "sync_supplier ev supplier w d =
           (Inl TypeError,
            d\<lparr>db_sync_logs := db_sync_logs d @ [new_sync_log d supplier],
              db_sync_errors := db_sync_errors d @
                 [\<lparr>se_supplier = sup_id supplier, se_error_type = ''SYSTEM_ERROR'',
                   se_severity = ''HIGH'', se_error = e, se_object_type = [],
                   se_object_id = [], se_context_data = ContextStats zero_stats\<rparr>]\<rparr>)"
proof -
  have "supplier_run ev supplier w sync_log d0 = Inl e" for sync_log d0
    using create_client_ok [OF assms(1,2)] assms(3)
    by (simp add: supplier_run_def ebind_def sync_products_def)
  then show ?thesis
    by (simp add: sync_supplier_def Let_def mark_completed_call_def)
qed

lemma mark_completed_logs:
  assumes "sl_id sync_log \<notin> set (map sl_id logs)" and "db_sync_logs d = logs @ [l]"
    and "sl_id l = sl_id sync_log"
  shows "db_sync_logs (mark_completed sync_log status now d) =
           logs @ [sync_log\<lparr>sl_status := status, sl_completed_at := Some now\<rparr>]"
proof -
  from assms(1) have "sl_id sync_log \<notin> sl_id ` set logs" by simp
  then have other: "\<And>x. x \<in> set logs \<Longrightarrow> sl_id x \<noteq> sl_id sync_log"
    by (metis imageI)
  have "map (\<lambda>l. if sl_id l = sl_id sync_log
             then sync_log\<lparr>sl_status := status, sl_completed_at := Some now\<rparr> else l) logs = logs"
    by (rule map_idI) (simp add: other)
  with assms(2,3) show ?thesis
    by (simp add: mark_completed_def Let_def)
qed

lemma new_sync_log_fresh: "sl_id (new_sync_log d supplier) \<notin> set (map sl_id (db_sync_logs d))"
  using next_id_fresh [of "sl_id (new_sync_log d supplier)" "map sl_id (db_sync_logs d)"]
  by (auto simp: new_sync_log_def)

lemma sync_supplier_returns:
  assumes "supplier_run ev supplier w (new_sync_log d supplier)
             (d\<lparr>db_sync_logs := db_sync_logs d @ [new_sync_log d supplier]\<rparr>) = Inr (result, d')"
  shows "sync_supplier ev supplier w d = (Inr result, d') \<and> sres_success result \<and>
         (\<exists>l. db_sync_logs d' = db_sync_logs d @ [l] \<and> sl_status l = ''SUCCESS'' \<and>
              sl_supplier l = sup_id supplier)"
proof -
  from supplier_run_Inr [OF assms] obtain d4 sync_log' where
    l: "db_sync_logs d4 = db_sync_logs d @ [new_sync_log d supplier]" and
    i: "sl_id sync_log' = sl_id (new_sync_log d supplier)" and
    su: "sl_supplier sync_log' = sl_supplier (new_sync_log d supplier)" and
    d': "d' = mark_completed sync_log' ''SUCCESS'' (e_now ev) d4" and ok: "sres_success result"
    by auto
  from new_sync_log_fresh [of d supplier] i
  have "sl_id sync_log' \<notin> set (map sl_id (db_sync_logs d))" by simp
  from mark_completed_logs [OF this l i [symmetric]] d'
  have "db_sync_logs d' = db_sync_logs d @ [sync_log'\<lparr>sl_status := ''SUCCESS'', sl_completed_at := Some (e_now ev)\<rparr>]"
    by simp
  moreover have "sl_supplier sync_log' = sup_id supplier"
    using su by (simp add: new_sync_log_def)
  ultimately show ?thesis
    using assms ok by (simp add: sync_supplier_def Let_def)
qed

lemma sync_supplier_logs:
  "\<exists>l. db_sync_logs (snd (sync_supplier ev supplier w d)) = db_sync_logs d @ [l] \<and>
       sl_supplier l = sup_id supplier"
proof (cases "supplier_run ev supplier w (new_sync_log d supplier)
             (d\<lparr>db_sync_logs := db_sync_logs d @ [new_sync_log d supplier]\<rparr>)")
  case (Inl e)
  then show ?thesis
    by (simp add: sync_supplier_def Let_def mark_completed_call_def) (simp add: new_sync_log_def)
next
  case (Inr r)
  obtain result d' where r: "r = (result, d')" by (cases r)
  from sync_supplier_returns [OF Inr [unfolded r]] show ?thesis by auto
qed


lemma sync_all_turn_db:
  "snd (snd (sync_all_turn ev w (results, tot, d) supplier)) = snd (sync_supplier ev supplier w d) \<and>
   set (map fst (fst (sync_all_turn ev w (results, tot, d) supplier))) =
     insert (sup_name supplier) (set (map fst results))"
  by (cases "sync_supplier ev supplier w d")
     (auto simp: sync_all_turn_def dict_set_keys [simplified] split: sum.splits)

lemma sync_all_fold:
  "case foldl (sync_all_turn ev w) (results, tot, d) suppliers of
     (results', tot', d') \<Rightarrow>
       map sl_supplier (db_sync_logs d') = map sl_supplier (db_sync_logs d) @ map sup_id suppliers \<and>
       set (map fst results') = set (map fst results) \<union> sup_name ` set suppliers"
proof (induction suppliers arbitrary: results tot d)
  case Nil
  then show ?case by simp
next
  case (Cons s suppliers)
  obtain results1 tot1 d1 where t: "sync_all_turn ev w (results, tot, d) s = (results1, tot1, d1)"
    by (cases "sync_all_turn ev w (results, tot, d) s")
  from sync_all_turn_db [where ev = ev and w = w and results = results and tot = tot and d = d and supplier = s] t
  have d1: "d1 = snd (sync_supplier ev s w d)"
    and k: "set (map fst results1) = insert (sup_name s) (set (map fst results))"
    by simp_all
  from sync_supplier_logs [where ev = ev and supplier = s and w = w and d = d] d1 obtain l where
    "db_sync_logs d1 = db_sync_logs d @ [l]" and "sl_supplier l = sup_id s"
    by auto
  then have logs: "map sl_supplier (db_sync_logs d1) = map sl_supplier (db_sync_logs d) @ [sup_id s]"
    by simp
  from Cons.IH [where results = results1 and tot = tot1 and d = d1] t logs k show ?case
    by (auto split: prod.splits)
qed

text \<open>
  Claim C2, as amended.  When the product fetch of an active supplier raises, a
  \<open>SYSTEM_ERROR\<close> row is recorded for the supplier, the supplier row (and with it
  \<open>last_sync\<close>) stays as it was, and the log of the run is not marked \<open>SUCCESS\<close>.  When
  the product fetch returns, the run ends with its log marked \<open>SUCCESS\<close> whatever the
  stock and price fetches do: an exception there is caught inside the step.  A run over
  all suppliers starts one run per active supplier, in the order of their names, and
  enters every one of them in its results: no exception leaves the loop.
\<close>

theorem fetch_failure_isolated:
  assumes "sup_is_active supplier"
    and "sup_supplier_type supplier \<in> {''MIDOCEAN'', ''MAKITO'', ''BIC''}"
  shows "(cl_get_products (e_client ev supplier) = Inl e \<longrightarrow>
            db_sync_errors (snd (sync_supplier ev supplier w d)) =
              db_sync_errors d @
                [\<lparr>se_supplier = sup_id supplier, se_error_type = ''SYSTEM_ERROR'',
                  se_severity = ''HIGH'', se_error = e, se_object_type = [], se_object_id = [],
                  se_context_data = ContextStats zero_stats\<rparr>] \<and>
            db_suppliers (snd (sync_supplier ev supplier w d)) = db_suppliers d \<and>
            \<not> list_ex (\<lambda>l. sl_id l = sl_id (new_sync_log d supplier) \<and> sl_status l = ''SUCCESS'')
                  (db_sync_logs (snd (sync_supplier ev supplier w d)))) \<and>
         (cl_get_products (e_client ev supplier) = Inr raw_products \<longrightarrow>
            (\<exists>result d' l. sync_supplier ev supplier w d = (Inr result, d') \<and> sres_success result \<and>
               db_sync_logs d' = db_sync_logs d @ [l] \<and> sl_status l = ''SUCCESS'' \<and>
               sl_supplier l = sup_id supplier)) \<and>
         (case sync_all_suppliers ev w dall of
            (results, tot, d') \<Rightarrow>
              map sl_supplier (db_sync_logs d') =
                map sl_supplier (db_sync_logs dall) @ map sup_id (active_suppliers dall) \<and>
              set (map fst results) = sup_name ` set (filter sup_is_active (db_suppliers dall)))"
proof (intro conjI impI)
  assume f: "cl_get_products (e_client ev supplier) = Inl e"
  note r = sync_supplier_product_fetch_raises [OF assms f, where w = w and d = d]
  show "db_sync_errors (snd (sync_supplier ev supplier w d)) =
              db_sync_errors d @
                [\<lparr>se_supplier = sup_id supplier, se_error_type = ''SYSTEM_ERROR'',
                  se_severity = ''HIGH'', se_error = e, se_object_type = [], se_object_id = [],
                  se_context_data = ContextStats zero_stats\<rparr>]"
    by (simp add: r)
  show "db_suppliers (snd (sync_supplier ev supplier w d)) = db_suppliers d"
    by (simp add: r)
  have "\<And>l. l \<in> set (db_sync_logs d) \<Longrightarrow> sl_id l \<noteq> sl_id (new_sync_log d supplier)"
    using new_sync_log_fresh [of d supplier] by (metis imageI set_map)
  then show "\<not> list_ex (\<lambda>l. sl_id l = sl_id (new_sync_log d supplier) \<and> sl_status l = ''SUCCESS'')
                  (db_sync_logs (snd (sync_supplier ev supplier w d)))"
    by (auto simp: r list_ex_iff) (simp add: new_sync_log_def)
next
  assume f: "cl_get_products (e_client ev supplier) = Inr raw_products"
  from supplier_run_returns [OF create_client_ok [OF assms] f]
  obtain result d' where "supplier_run ev supplier w (new_sync_log d supplier)
             (d\<lparr>db_sync_logs := db_sync_logs d @ [new_sync_log d supplier]\<rparr>) = Inr (result, d')"
    by blast
  from sync_supplier_returns [OF this]
  show "\<exists>result d' l. sync_supplier ev supplier w d = (Inr result, d') \<and> sres_success result \<and>
               db_sync_logs d' = db_sync_logs d @ [l] \<and> sl_status l = ''SUCCESS'' \<and>
               sl_supplier l = sup_id supplier"
    by blast
next
  from sync_all_fold [where ev = ev and w = w and results = "[]" and tot = zero_stats and d = dall
      and suppliers = "active_suppliers dall"]
  show "case sync_all_suppliers ev w dall of
            (results, tot, d') \<Rightarrow>
              map sl_supplier (db_sync_logs d') =
                map sl_supplier (db_sync_logs dall) @ map sup_id (active_suppliers dall) \<and>
              set (map fst results) = sup_name ` set (filter sup_is_active (db_suppliers dall))"
    by (simp add: sync_all_suppliers_def active_suppliers_def)
qed

theorem fetch_failure_isolated_witness:
  "sup_is_active ex_supplier2 \<and> sup_supplier_type ex_supplier2 \<in> {''MIDOCEAN'', ''MAKITO'', ''BIC''} \<and>
   cl_get_products (e_client ex_env ex_supplier2) = Inl APIError \<and>
   map se_error_type (db_sync_errors (snd (sync_supplier ex_env ex_supplier2 False ex_db2))) = [''SYSTEM_ERROR''] \<and>
   sup_is_active ex_supplier \<and> sup_supplier_type ex_supplier \<in> {''MIDOCEAN'', ''MAKITO'', ''BIC''} \<and>
   cl_get_products (e_client ex_env ex_supplier) = Inr [ex_good_record] \<and>
   cl_get_stock (e_client ex_env ex_supplier) = Inl APIError \<and>
   (\<exists>result d' l. sync_supplier ex_env ex_supplier False ex_db2 = (Inr result, d') \<and> sres_success result \<and>
      db_sync_logs d' = db_sync_logs ex_db2 @ [l] \<and> sl_status l = ''SUCCESS'') \<and>
   map sup_id (db_suppliers ex_db2) = [1, 2] \<and>
   (case sync_all_suppliers ex_env False ex_db2 of
      (results, tot, d') \<Rightarrow> map sl_supplier (db_sync_logs d') = [2, 1] \<and>
         set (map fst results) = {''Alfa'', ''Makito''})"
proof -
  have a1: "sup_is_active ex_supplier2" by (simp add: ex_supplier2_def)
  have t1: "sup_supplier_type ex_supplier2 \<in> {''MIDOCEAN'', ''MAKITO'', ''BIC''}" by (simp add: ex_supplier2_def)
  have f1: "cl_get_products (e_client ex_env ex_supplier2) = Inl APIError"
    by (simp add: ex_env_def ex_supplier2_def)
  have a2: "sup_is_active ex_supplier" by (simp add: ex_supplier_def)
  have t2: "sup_supplier_type ex_supplier \<in> {''MIDOCEAN'', ''MAKITO'', ''BIC''}" by (simp add: ex_supplier_def)
  have f2: "cl_get_products (e_client ex_env ex_supplier) = Inr [ex_good_record]"
    by (simp add: ex_env_def ex_supplier_def)
  have s2: "cl_get_stock (e_client ex_env ex_supplier) = Inl APIError"
    by (simp add: ex_env_def ex_supplier_def)
  have o: "map sup_id (active_suppliers ex_db2) = [2, 1]"
    "sup_name ` set (filter sup_is_active (db_suppliers ex_db2)) = {''Alfa'', ''Makito''}"
    "map sup_id (db_suppliers ex_db2) = [1, 2]"
    by code_simp+
  have e0: "db_sync_errors ex_db2 = []" "db_sync_logs ex_db2 = []"
    by (simp_all add: ex_db2_def)
  from fetch_failure_isolated [OF a1 t1, where ev = ex_env and e = APIError and w = False and d = ex_db2
      and dall = ex_db2] f1 e0 o
  have p1: "map se_error_type (db_sync_errors (snd (sync_supplier ex_env ex_supplier2 False ex_db2))) = [''SYSTEM_ERROR'']"
    and p3: "case sync_all_suppliers ex_env False ex_db2 of
      (results, tot, d') \<Rightarrow> map sl_supplier (db_sync_logs d') = [2, 1] \<and>
         set (map fst results) = {''Alfa'', ''Makito''}"
    by (auto simp: ex_supplier2_def split: prod.splits)
  from fetch_failure_isolated [OF a2 t2, where ev = ex_env and raw_products = "[ex_good_record]" and w = False
      and d = ex_db2] f2
  have p2: "\<exists>result d' l. sync_supplier ex_env ex_supplier False ex_db2 = (Inr result, d') \<and> sres_success result \<and>
      db_sync_logs d' = db_sync_logs ex_db2 @ [l] \<and> sl_status l = ''SUCCESS''"
    by blast
  from a1 t1 f1 p1 a2 t2 f2 s2 p2 p3 o(3) show ?thesis by blast
qed

theorem stock_fetch_error_counterexample:
  "sup_supplier_type ex_supplier = ''MAKITO'' \<and>
   cl_get_stock (e_client ex_env ex_supplier) = Inl APIError \<and>
   map sl_status (db_sync_logs (snd (sync_supplier ex_env ex_supplier False ex_db2))) = [''SUCCESS''] \<and>
   db_sync_errors (snd (sync_supplier ex_env ex_supplier False ex_db2)) = []"
  by code_simp

subsection \<open>Price tiers of one variant\<close>

lemma find_variant_prices_frame:
  "find_variant_by_sku pystr (d\<lparr>db_prices := ps\<rparr>) sku supplier = find_variant_by_sku pystr d sku supplier"
  by (simp add: find_variant_by_sku_def variant_of_supplier_def)

lemma apply_price_found:
  assumes "find_variant_by_sku pystr d (dget mapped_price ''sku'' PNone) supplier = Inr (Some v)"
  shows "apply_price pystr supplier mapped_price (d, st, n) =
           Inr (d\<lparr>db_prices :=
                    map (\<lambda>r. if pr_variant r = pv_id v then r\<lparr>pr_is_active := False\<rparr> else r)
                      (db_prices d)
                    @ [\<lparr>pr_variant = pv_id v,
                        pr_price = dget mapped_price ''price'' (PInt 0),
                        pr_currency = dget mapped_price ''currency'' (PStr ''EUR''),
                        pr_min_quantity = dget mapped_price ''min_quantity'' (PInt 1),
                        pr_max_quantity = dget mapped_price ''max_quantity'' PNone,
                        pr_valid_until = dget mapped_price ''valid_until'' PNone,
                        pr_is_active = True\<rparr>]\<rparr>,
                st\<lparr>prices_updated := Suc (prices_updated st)\<rparr>, Suc n)"
  using assms by (simp add: apply_price_def ebind_def)

lemma deactivated_none_active:
  "filter (\<lambda>r. pr_variant r = i \<and> pr_is_active r)
     (map (\<lambda>r. if pr_variant r = i then r\<lparr>pr_is_active := False\<rparr> else r) rows) = []"
  by (induction rows) simp_all

lemma apply_prices_last_tier_only:
  assumes "tiers \<noteq> []"
    and "\<forall>t\<in>set tiers. find_variant_by_sku pystr d (dget t ''sku'' PNone) supplier = Inr (Some v)"
  shows "filter (\<lambda>r. pr_variant r = pv_id v \<and> pr_is_active r)
           (db_prices (fst (apply_prices pystr supplier tiers (d, st, n)))) =
         [\<lparr>pr_variant = pv_id v,
           pr_price = dget (last tiers) ''price'' (PInt 0),
           pr_currency = dget (last tiers) ''currency'' (PStr ''EUR''),
           pr_min_quantity = dget (last tiers) ''min_quantity'' (PInt 1),
           pr_max_quantity = dget (last tiers) ''max_quantity'' PNone,
           pr_valid_until = dget (last tiers) ''valid_until'' PNone,
           pr_is_active = True\<rparr>]"
  using assms
proof (induction tiers arbitrary: d st n)
  case Nil
  then show ?case by simp
next
  case (Cons t rest)
  have found: "find_variant_by_sku pystr d (dget t ''sku'' PNone) supplier = Inr (Some v)"
    using Cons.prems(2) by simp
  note step = apply_price_found [OF found, of st n]
  show ?case
  proof (cases "rest = []")
    case True
    then show ?thesis by (simp add: step deactivated_none_active)
  next
    case False
    have "\<forall>u\<in>set rest. find_variant_by_sku pystr
            (d\<lparr>db_prices :=
                    map (\<lambda>r. if pr_variant r = pv_id v then r\<lparr>pr_is_active := False\<rparr> else r)
                      (db_prices d)
                    @ [\<lparr>pr_variant = pv_id v,
                        pr_price = dget t ''price'' (PInt 0),
                        pr_currency = dget t ''currency'' (PStr ''EUR''),
                        pr_min_quantity = dget t ''min_quantity'' (PInt 1),
                        pr_max_quantity = dget t ''max_quantity'' PNone,
                        pr_valid_until = dget t ''valid_until'' PNone,
                        pr_is_active = True\<rparr>]\<rparr>) (dget u ''sku'' PNone) supplier = Inr (Some v)"
      using Cons.prems(2) by (simp add: find_variant_prices_frame)
    from Cons.IH [OF False this] False show ?thesis by (simp add: step)
  qed
qed

text \<open>
  Claim C4: applying a new tier set to a variant deactivates the tiers the variant had and
  inserts the new set as active.  In \<open>_sync_prices\<close> the deactivation of line 273 stands
  inside the loop over the tiers of the set, so each tier also deactivates the tiers of its
  own set inserted before it, and of a set of several tiers only the last stays active
  (lemma \<open>apply_prices_last_tier_only\<close>).  Here a price record of the variant \<open>X1\<close> maps
  to two tiers, from one piece and from a hundred pieces; after the step the tier from one
  piece is inactive, on a variant that had no price before.
\<close>

theorem price_tier_set_siblings_deactivated:
  "map_sum id (map (\<lambda>t. dget t ''min_quantity'' PNone))
     (map_price_data ex_fparse (\<lambda>s. None) ex_midocean_price ex_midocean_supplier) =
     Inr [PInt 1, PInt 100] \<and>
   db_prices ex_db = [] \<and>
   map (\<lambda>r. (pr_variant r, pr_min_quantity r, pr_is_active r))
     (db_prices (fst (snd (sync_prices ex_pystr ex_fparse (\<lambda>s. None) ex_midocean_supplier
        (Inr [ex_midocean_price]) (ex_db, zero_stats))))) =
     [(1, PInt 1, False), (1, PInt 100, True)]"
  by code_simp

end
